theory Spec2Isabelle
  imports Complex_Main "HOL-Library.Multiset"
begin

section \<open>JavaScript values used by the profit calculator\<close>

text \<open>
  The calculator of \<^verbatim>\<open>utils/profitCalculator.js\<close> works on JavaScript numbers. A number
  is modelled as either \<open>NaN\<close> or a finite value, and a finite value is carried as an exact
  rational: the operations below do not round, and the infinities and the negative zero
  are not modelled. The gas cost, where the rounding of doubles decides a claim, is
  modelled a second time in double arithmetic. Every comparison with \<open>NaN\<close> is false and every arithmetic operation on
  \<open>NaN\<close> gives \<open>NaN\<close>, as in the language. A property that is absent from an object
  (\<^verbatim>\<open>undefined\<close>) is \<open>None\<close>.
\<close>

datatype jsnum = NaN | Fin rat

fun js_add :: "jsnum \<Rightarrow> jsnum \<Rightarrow> jsnum" where
  "js_add (Fin a) (Fin b) = Fin (a + b)"
| "js_add _ _ = NaN"

fun js_sub :: "jsnum \<Rightarrow> jsnum \<Rightarrow> jsnum" where
  "js_sub (Fin a) (Fin b) = Fin (a - b)"
| "js_sub _ _ = NaN"

fun js_mul :: "jsnum \<Rightarrow> jsnum \<Rightarrow> jsnum" where
  "js_mul (Fin a) (Fin b) = Fin (a * b)"
| "js_mul _ _ = NaN"

text \<open>
  The divisors of this program are the literals \<^verbatim>\<open>1e9\<close> and \<^verbatim>\<open>100\<close> and a value
  guarded by \<^verbatim>\<open>uniCostUSD > 0\<close>, so a division by zero (an infinity in JavaScript) is
  never reached; the model gives \<open>NaN\<close> there.
\<close>

fun js_div :: "jsnum \<Rightarrow> jsnum \<Rightarrow> jsnum" where
  "js_div (Fin a) (Fin b) = (if b = 0 then NaN else Fin (a / b))"
| "js_div _ _ = NaN"

fun js_gt :: "jsnum \<Rightarrow> jsnum \<Rightarrow> bool" where
  "js_gt (Fin a) (Fin b) = (b < a)"
| "js_gt _ _ = False"

fun js_ge :: "jsnum \<Rightarrow> jsnum \<Rightarrow> bool" where
  "js_ge (Fin a) (Fin b) = (b \<le> a)"
| "js_ge _ _ = False"

fun js_lt :: "jsnum \<Rightarrow> jsnum \<Rightarrow> bool" where
  "js_lt (Fin a) (Fin b) = (a < b)"
| "js_lt _ _ = False"

text \<open>\<^verbatim>\<open>ToBoolean\<close> on a number: \<open>0\<close> and \<open>NaN\<close> are falsy.\<close>

fun truthy :: "jsnum \<Rightarrow> bool" where
  "truthy NaN = False"
| "truthy (Fin a) = (a \<noteq> 0)"

text \<open>\<^verbatim>\<open>ToNumber\<close> on a property that may be absent: \<^verbatim>\<open>undefined\<close> becomes \<open>NaN\<close>.\<close>

fun to_number :: "jsnum option \<Rightarrow> jsnum" where
  "to_number None = NaN"
| "to_number (Some x) = x"

text \<open>The value of a number that is not \<open>NaN\<close>.\<close>

fun fin_val :: "jsnum \<Rightarrow> rat" where
  "fin_val (Fin a) = a"
| "fin_val NaN = 0"

text \<open>
  An \<^verbatim>\<open>async\<close> function returns a promise: fulfilled with the value the body returns,
  rejected with what the body throws.
\<close>

datatype 'a promise = Fulfilled 'a | Rejected string

text \<open>
  What \<^verbatim>\<open>...x\<close> may be applied to here: a plain object, or the promise that a call of
  an \<^verbatim>\<open>async\<close> function evaluates to. Object spread copies the own enumerable
  properties of its operand: all the properties of a plain object, and none of a promise,
  which has no own enumerable property whatever it is settled with.
\<close>

datatype 'a js_value = Plain 'a | PromiseOf "'a promise"

fun spread :: "'a js_value \<Rightarrow> 'a option" where
  "spread (Plain v) = Some v"
| "spread (PromiseOf p) = None"

section \<open>Data model\<close>

text \<open>
  A jar token as the callers build it: \<^verbatim>\<open>{address, symbol, balance, decimals, price}\<close>.
  The balance is a non-negative integer in the smallest unit (a \<^verbatim>\<open>uint256\<close> read from
  the chain, passed as a decimal string); \<open>decimals\<close> and \<open>price\<close> may be absent.
\<close>

record token =
  address :: string
  symbol :: string
  balance :: nat
  decimals :: "nat option"
  price :: "jsnum option"

text \<open>
  The entries pushed by the loop of \<^verbatim>\<open>calculateProfit\<close>: the token's own properties
  (\<^verbatim>\<open>...token\<close>) and \<open>balanceEth\<close>, \<open>valueUSD\<close>, then \<open>netValueUSD\<close> on a
  claimable entry and \<open>costToClaimUSD\<close> on a dust entry.
\<close>

record classified_token = token +
  balanceEth :: jsnum
  valueUSD :: jsnum
  netValueUSD :: "jsnum option"
  costToClaimUSD :: "jsnum option"

definition token_of :: "classified_token \<Rightarrow> token" where
  "token_of c = \<lparr>address = address c, symbol = symbol c, balance = balance c,
                 decimals = decimals c, price = price c\<rparr>"

record profit_result =
  uniAmount :: jsnum
  uniCostUSD :: jsnum
  totalJarValueUSD :: jsnum
  gasCostUSD :: jsnum
  grossProfit :: jsnum
  netProfit :: jsnum
  profitPercentage :: jsnum
  minimumOutputUSD :: jsnum
  isProfitable :: bool
  meetsThreshold :: bool
  tokenBreakdown :: "classified_token list"
  dustTokens :: "classified_token list"
  estimatedGas :: nat
  allTokensCount :: nat
  filteredCount :: nat
  savedGasUSD :: jsnum

section \<open>calculateProfit\<close>

definition TRANSFER_GAS_COST :: nat where
  "TRANSFER_GAS_COST = 60000"

definition BASE_GAS_COST :: nat where
  "BASE_GAS_COST = 100000"

text \<open>\<^verbatim>\<open>SECURITY.DEFAULT_SLIPPAGE_TOLERANCE\<close> of \<^verbatim>\<open>contracts/constants.js\<close>: 0.5 (percent).\<close>

definition DEFAULT_SLIPPAGE_TOLERANCE :: rat where
  "DEFAULT_SLIPPAGE_TOLERANCE = 1 / 2"

text \<open>
  Modelled from the spec: \<^verbatim>\<open>ethers.formatUnits\<close> and \<^verbatim>\<open>ethers.formatEther\<close> belong to
  the ethers library, which is not part of the repository. The spec gives the conversion as
  \<open>balanceWhole = balance / 10^decimals\<close>, and \<^verbatim>\<open>formatEther\<close> is the conversion at 18
  decimals. \<^verbatim>\<open>parseFloat\<close> reads the decimal string back as a number. The range
  checks of the library on its operands are not modelled.
\<close>

definition formatUnits :: "nat \<Rightarrow> nat \<Rightarrow> rat" where
  "formatUnits v d = of_nat v / 10 ^ d"

definition formatEther :: "nat \<Rightarrow> rat" where
  "formatEther v = formatUnits v 18"

definition parseFloat :: "rat \<Rightarrow> jsnum" where
  "parseFloat s = Fin s"

text \<open>Line 28: \<^verbatim>\<open>jarTokens.find(t => t.symbol === 'WETH')?.price || 2000\<close>.\<close>

definition ethPrice_of :: "token list \<Rightarrow> jsnum" where
  "ethPrice_of jarTokens =
     (case List.find (\<lambda>t. symbol t = ''WETH'') jarTokens of
        None \<Rightarrow> Fin 2000
      | Some t \<Rightarrow>
          (case price t of
             None \<Rightarrow> Fin 2000
           | Some p \<Rightarrow> if truthy p then p else Fin 2000))"

text \<open>Line 38: \<^verbatim>\<open>token.decimals || 18\<close>; an absent value and \<open>0\<close> are falsy.\<close>

definition decimals_or_18 :: "nat option \<Rightarrow> nat" where
  "decimals_or_18 d = (case d of None \<Rightarrow> 18 | Some n \<Rightarrow> if n = 0 then 18 else n)"

definition balanceEth_of :: "token \<Rightarrow> jsnum" where
  "balanceEth_of t = parseFloat (formatUnits (balance t) (decimals_or_18 (decimals t)))"

text \<open>Line 39: \<^verbatim>\<open>balanceEth * token.price\<close>.\<close>

definition valueUSD_of :: "token \<Rightarrow> jsnum" where
  "valueUSD_of t = js_mul (balanceEth_of t) (to_number (price t))"

text \<open>The object pushed on \<^verbatim>\<open>optimalTokens\<close> (lines 42 to 47).\<close>

definition optimal_entry :: "jsnum \<Rightarrow> token \<Rightarrow> classified_token" where
  "optimal_entry transferCostUSD t =
     \<lparr>address = address t, symbol = symbol t, balance = balance t,
      decimals = decimals t, price = price t,
      balanceEth = balanceEth_of t,
      valueUSD = valueUSD_of t,
      netValueUSD = Some (js_sub (valueUSD_of t) transferCostUSD),
      costToClaimUSD = None\<rparr>"

text \<open>The object pushed on \<^verbatim>\<open>dustTokens\<close> (lines 50 to 55).\<close>

definition dust_entry :: "jsnum \<Rightarrow> token \<Rightarrow> classified_token" where
  "dust_entry transferCostUSD t =
     \<lparr>address = address t, symbol = symbol t, balance = balance t,
      decimals = decimals t, price = price t,
      balanceEth = balanceEth_of t,
      valueUSD = valueUSD_of t,
      netValueUSD = None,
      costToClaimUSD = Some transferCostUSD\<rparr>"

text \<open>
  The loop of lines 37 to 57. Its state is the two arrays and the running sum
  \<^verbatim>\<open>optimizedJarValueUSD\<close>; \<^verbatim>\<open>push\<close> appends at the end.
\<close>

fun classify_loop ::
  "jsnum \<Rightarrow> token list \<Rightarrow> classified_token list \<times> classified_token list \<times> jsnum
     \<Rightarrow> classified_token list \<times> classified_token list \<times> jsnum" where
  "classify_loop transferCostUSD [] st = st"
| "classify_loop transferCostUSD (t # ts) (optimalTokens, dustToks, optimizedJarValueUSD) =
     (if js_gt (valueUSD_of t) transferCostUSD
      then classify_loop transferCostUSD ts
             (optimalTokens @ [optimal_entry transferCostUSD t], dustToks,
              js_add optimizedJarValueUSD (valueUSD_of t))
      else classify_loop transferCostUSD ts
             (optimalTokens, dustToks @ [dust_entry transferCostUSD t],
              optimizedJarValueUSD))"

text \<open>
  \<^verbatim>\<open>calculateProfit(uniAmount, uniPrice, jarTokens, threshold, gasPrice)\<close>, an
  \<^verbatim>\<open>async\<close> function: the object it returns is the value its promise is fulfilled with.
  (The source has a stray comment terminator before the function; it is read as absent.)
\<close>

definition calculateProfit ::
  "nat \<Rightarrow> jsnum \<Rightarrow> token list \<Rightarrow> nat \<Rightarrow> jsnum \<Rightarrow> profit_result promise" where
  "calculateProfit uniAmt uniPrice jarTokens threshold gasPrice =
     (let uniAmountEth = parseFloat (formatEther uniAmt);
          thresholdEth = parseFloat (formatEther threshold);
          uniCostUSD = js_mul uniAmountEth uniPrice;
          ethPrice = ethPrice_of jarTokens;
          gasPriceEth = js_div gasPrice (Fin 1000000000);
          transferCostUSD = js_mul (js_mul (Fin (of_nat TRANSFER_GAS_COST)) gasPriceEth) ethPrice;
          (optimalTokens, dustTokens, optimizedJarValueUSD) =
             classify_loop transferCostUSD jarTokens ([], [], Fin 0);
          estimatedGas = BASE_GAS_COST + length optimalTokens * TRANSFER_GAS_COST;
          totalGasCostEth =
             js_div (js_mul (Fin (of_nat estimatedGas)) gasPrice) (Fin 1000000000);
          totalGasCostUSD = js_mul totalGasCostEth ethPrice;
          grossProfit = js_sub optimizedJarValueUSD uniCostUSD;
          netProfit = js_sub grossProfit totalGasCostUSD;
          profitPercentage =
             (if js_gt uniCostUSD (Fin 0)
              then js_mul (js_div netProfit uniCostUSD) (Fin 100) else Fin 0);
          minimumOutputUSD =
             js_mul optimizedJarValueUSD
               (js_sub (Fin 1) (js_div (Fin DEFAULT_SLIPPAGE_TOLERANCE) (Fin 100)))
      in Fulfilled
           \<lparr>uniAmount = uniAmountEth,
            uniCostUSD = uniCostUSD,
            totalJarValueUSD = optimizedJarValueUSD,
            gasCostUSD = totalGasCostUSD,
            grossProfit = grossProfit,
            netProfit = netProfit,
            profitPercentage = profitPercentage,
            minimumOutputUSD = minimumOutputUSD,
            isProfitable = js_gt netProfit (Fin 0),
            meetsThreshold = js_ge uniAmountEth thresholdEth,
            tokenBreakdown = optimalTokens,
            dustTokens = dustTokens,
            estimatedGas = estimatedGas,
            allTokensCount = length jarTokens,
            filteredCount = length dustTokens,
            savedGasUSD = js_mul (Fin (of_nat (length dustTokens))) transferCostUSD\<rparr>)"

text \<open>
  The value of \<^verbatim>\<open>transferCostUSD\<close> (lines 29 and 30) as a function of the inputs, and the
  test of line 41.
\<close>

definition transferCostUSD_of :: "jsnum \<Rightarrow> token list \<Rightarrow> jsnum" where
  "transferCostUSD_of gasPrice jarTokens =
     (let ethPrice = ethPrice_of jarTokens;
          gasPriceEth = js_div gasPrice (Fin 1000000000)
      in js_mul (js_mul (Fin (of_nat TRANSFER_GAS_COST)) gasPriceEth) ethPrice)"

definition claimable :: "jsnum \<Rightarrow> token \<Rightarrow> bool" where
  "claimable transferCostUSD t = js_gt (valueUSD_of t) transferCostUSD"

text \<open>\<^verbatim>\<open>promise.then(f)\<close>: the promise of \<open>f\<close> applied to the fulfilment value.\<close>

fun then_promise :: "('a \<Rightarrow> 'b) \<Rightarrow> 'a promise \<Rightarrow> 'b promise" where
  "then_promise f (Fulfilled v) = Fulfilled (f v)"
| "then_promise f (Rejected e) = Rejected e"

section \<open>calculateOptimalBurn\<close>

text \<open>
  The object \<^verbatim>\<open>{optimalBurnAmount, optimalBurnWei, ...profit}\<close> of lines 115 to 119.
  \<open>profit_props\<close> stands for the properties that \<^verbatim>\<open>...profit\<close> copies into the object:
  \<open>None\<close> when it copies none. \<open>optimalBurnWei\<close> is the decimal string of the
  threshold, kept as the number it writes.
\<close>

record burn_result =
  optimalBurnAmount :: jsnum
  optimalBurnWei :: nat
  profit_props :: "profit_result option"

text \<open>
  \<^verbatim>\<open>calculateOptimalBurn(jarTokens, uniPrice, threshold, gasPrice)\<close> is not
  \<^verbatim>\<open>async\<close> and calls \<^verbatim>\<open>calculateProfit\<close>, which is, without \<^verbatim>\<open>await\<close>:
  \<open>profit\<close> is the promise itself.
\<close>

definition calculateOptimalBurn ::
  "token list \<Rightarrow> jsnum \<Rightarrow> nat \<Rightarrow> jsnum \<Rightarrow> burn_result" where
  "calculateOptimalBurn jarTokens uniPrice threshold gasPrice =
     (let thresholdEth = parseFloat (formatEther threshold);
          burnWei = threshold;
          profit = PromiseOf (calculateProfit burnWei uniPrice jarTokens threshold gasPrice)
      in \<lparr>optimalBurnAmount = thresholdEth,
          optimalBurnWei = burnWei,
          profit_props = spread profit\<rparr>)"

section \<open>Double arithmetic\<close>

text \<open>
  Where the order of the operations matters, the rounding of doubles is modelled: the
  result of an operation is the exact result rounded to the nearest number with a
  significand of 53 bits, to the one with an even significand on a tie. For a positive
  \<open>x\<close>, \<open>binade x\<close> is the exponent \<open>e\<close> with \<open>2^e \<le> x < 2^(e+1)\<close>, found from the
  bit length of the integer part of \<open>x\<close> or of \<open>1 / x\<close>; the numbers of that binade are
  the multiples of \<open>2^(e - 52)\<close>. Overflow and subnormal numbers are not modelled.
\<close>

definition round_half_even :: "rat \<Rightarrow> int" where
  "round_half_even x =
     (let f = \<lfloor>x\<rfloor>; d = x - of_int f
      in if d < 1 / 2 then f
         else if 1 / 2 < d then f + 1
         else if even f then f else f + 1)"

fun bit_length :: "nat \<Rightarrow> nat" where
  "bit_length n = (if n = 0 then 0 else 1 + bit_length (n div 2))"

declare bit_length.simps [simp del]

definition pow2 :: "int \<Rightarrow> rat" where
  "pow2 e = (if 0 \<le> e then 2 ^ nat e else 1 / 2 ^ nat (- e))"

definition binade :: "rat \<Rightarrow> int" where
  "binade x =
     (if 1 \<le> x then int (bit_length (nat \<lfloor>x\<rfloor>)) - 1
      else (let b = bit_length (nat \<lfloor>1 / x\<rfloor>)
            in if x * 2 ^ (b - 1) = 1 then 1 - int b else - int b))"

definition round_double :: "rat \<Rightarrow> rat" where
  "round_double x =
     (if x = 0 then 0
      else (let u = pow2 (binade \<bar>x\<bar> - 52)
            in sgn x * of_int (round_half_even (\<bar>x\<bar> / u)) * u))"




section \<open>Number formatting\<close>

text \<open>
  \<^verbatim>\<open>Number.prototype.toFixed(f)\<close> as the language defines it. A number that is not
  finite is printed by \<^verbatim>\<open>ToString\<close> (\<open>NaN\<close> here). Otherwise the sign is split off; a
  magnitude of \<open>10^21\<close> or more is printed by \<^verbatim>\<open>ToString\<close>, in exponent notation; a
  smaller one is scaled by \<open>10^f\<close>, rounded to the nearest integer \<open>n\<close> (the larger one
  on a tie), and the decimal digits of \<open>n\<close>, padded with zeros on the left to \<open>f + 1\<close>
  digits, are split by a point before the last \<open>f\<close> digits.
\<close>

fun nat_digits :: "nat \<Rightarrow> nat list" where
  "nat_digits n = (if n < 10 then [n] else nat_digits (n div 10) @ [n mod 10])"

declare nat_digits.simps [simp del]

definition digit_char :: "nat \<Rightarrow> char" where
  "digit_char d = ''0123456789'' ! d"

definition decimal_string :: "nat \<Rightarrow> string" where
  "decimal_string n = map digit_char (nat_digits n)"

definition round_half_up :: "rat \<Rightarrow> nat" where
  "round_half_up a = nat \<lfloor>a + 1 / 2\<rfloor>"

definition fixed_digits :: "nat \<Rightarrow> nat \<Rightarrow> string" where
  "fixed_digits f n =
     (let m = decimal_string n in
      if f = 0 then m
      else (let m' = (if length m \<le> f then replicate (f + 1 - length m) CHR ''0'' @ m else m);
                k = length m'
            in take (k - f) m' @ ''.'' @ drop (k - f) m'))"

text \<open>
  \<^verbatim>\<open>ToString\<close> of a number of at least \<open>10^21\<close>: the significant digits, a point after
  the first when there are several, and the exponent. A double of that size is an
  integer; the model prints the digits of the integer part with the trailing zeros
  removed, where the language prints the shortest digits that identify the double.
\<close>

definition exponential_string :: "nat \<Rightarrow> string" where
  "exponential_string i =
     (let ds = nat_digits i;
          n = length ds;
          sig = rev (dropWhile (\<lambda>d. d = 0) (rev ds))
      in (case map digit_char sig of
            [] \<Rightarrow> []
          | d # rest \<Rightarrow> d # (if rest = [] then [] else ''.'' @ rest))
         @ ''e+'' @ decimal_string (n - 1))"

definition toFixed :: "nat \<Rightarrow> jsnum \<Rightarrow> string" where
  "toFixed f x =
     (case x of
        NaN \<Rightarrow> ''NaN''
      | Fin r \<Rightarrow>
          (let s = (if r < 0 then ''-'' else '''');
               a = \<bar>r\<bar>
           in if 10 ^ 21 \<le> a then s @ exponential_string (nat \<lfloor>a\<rfloor>)
              else s @ fixed_digits f (round_half_up (a * 10 ^ f))))"

section \<open>formatProfitData\<close>

text \<open>
  The object built for each entry of \<^verbatim>\<open>tokenBreakdown\<close> (lines 139 to 144): the properties
  \<^verbatim>\<open>address\<close>, \<^verbatim>\<open>symbol\<close>, \<^verbatim>\<open>balance\<close> and \<^verbatim>\<open>valueUSD\<close>, and no other.
\<close>

record breakdown_row =
  row_address :: string
  row_symbol :: string
  row_balance :: string
  row_valueUSD :: string

text \<open>
  The object returned by \<^verbatim>\<open>formatProfitData\<close>; the field \<open>fmt_x\<close> is the property
  \<^verbatim>\<open>x\<close>.
\<close>

record formatted_profit =
  fmt_uniAmount :: string
  fmt_uniCostUSD :: string
  fmt_totalJarValueUSD :: string
  fmt_gasCostUSD :: string
  fmt_grossProfit :: string
  fmt_netProfit :: string
  fmt_profitPercentage :: string
  fmt_minimumOutputUSD :: string
  fmt_isProfitable :: bool
  fmt_meetsThreshold :: bool
  fmt_tokenBreakdown :: "breakdown_row list"
  fmt_dustCount :: nat
  fmt_savedGas :: string
  fmt_filtered :: bool

definition format_row :: "classified_token \<Rightarrow> breakdown_row" where
  "format_row t =
     \<lparr>row_address = address t,
      row_symbol = symbol t,
      row_balance = toFixed 6 (balanceEth t),
      row_valueUSD = ''$'' @ toFixed 2 (valueUSD t)\<rparr>"

definition formatProfitData :: "profit_result \<Rightarrow> formatted_profit" where
  "formatProfitData profitData =
     \<lparr>fmt_uniAmount = toFixed 2 (uniAmount profitData),
      fmt_uniCostUSD = ''$'' @ toFixed 2 (uniCostUSD profitData),
      fmt_totalJarValueUSD = ''$'' @ toFixed 2 (totalJarValueUSD profitData),
      fmt_gasCostUSD = ''$'' @ toFixed 2 (gasCostUSD profitData),
      fmt_grossProfit = ''$'' @ toFixed 2 (grossProfit profitData),
      fmt_netProfit = ''$'' @ toFixed 2 (netProfit profitData),
      fmt_profitPercentage = toFixed 2 (profitPercentage profitData) @ ''%'',
      fmt_minimumOutputUSD = ''$'' @ toFixed 2 (minimumOutputUSD profitData),
      fmt_isProfitable = isProfitable profitData,
      fmt_meetsThreshold = meetsThreshold profitData,
      fmt_tokenBreakdown = map format_row (tokenBreakdown profitData),
      fmt_dustCount = filteredCount profitData,
      fmt_savedGas = ''$'' @ toFixed 2 (savedGasUSD profitData),
      fmt_filtered = (0 < filteredCount profitData)\<rparr>"

section \<open>The words of the specification\<close>

text \<open>
  The specification's value of a token: \<open>balanceWhole = balance / 10^decimals\<close> and
  \<open>valueUsd = balanceWhole * price\<close>.
\<close>

definition valueUsd_spec :: "nat \<Rightarrow> nat \<Rightarrow> jsnum \<Rightarrow> jsnum" where
  "valueUsd_spec bal dec pr = js_mul (Fin (of_nat bal / 10 ^ dec)) pr"

text \<open>
  The specification's cost of one transfer:
  \<open>perTransferCostUsd = transferGasUnits * (gasPriceGwei / 1e9) * ethUsdPrice\<close>, with
  60000 transfer gas units.
\<close>

definition perTransferCostUsd_spec :: "jsnum \<Rightarrow> jsnum \<Rightarrow> jsnum" where
  "perTransferCostUsd_spec gasPriceGwei ethUsdPrice =
     js_mul (js_mul (Fin 60000) (js_div gasPriceGwei (Fin 1000000000))) ethUsdPrice"


text \<open>
  The ETH price in words: the price of the first input token whose symbol is
  \<open>WETH\<close> when there is one and its price is truthy, and 2000 otherwise.
\<close>

definition weth_price_or_2000 :: "token list \<Rightarrow> jsnum" where
  "weth_price_or_2000 jarTokens =
     (case filter (\<lambda>t. symbol t = ''WETH'') jarTokens of
        [] \<Rightarrow> Fin 2000
      | w # _ \<Rightarrow> if truthy (to_number (price w)) then to_number (price w) else Fin 2000)"

text \<open>
  A string of \<open>f\<close> decimals: an optional minus sign, at least one digit, a point and
  exactly \<open>f\<close> digits. \<open>fixed_point_value\<close> is the number such a string writes, and a
  string shows an amount to \<open>f\<close> decimals when it has that shape and its number is
  within half a unit of the last decimal of the amount.
\<close>

definition is_digit :: "char \<Rightarrow> bool" where
  "is_digit c = (c \<in> set ''0123456789'')"

definition digit_of :: "char \<Rightarrow> nat" where
  "digit_of c = length (takeWhile (\<lambda>d. d \<noteq> c) ''0123456789'')"

definition digits_value :: "string \<Rightarrow> nat" where
  "digits_value s = foldl (\<lambda>a c. 10 * a + digit_of c) 0 s"

definition unsigned_part :: "string \<Rightarrow> string" where
  "unsigned_part s = (case s of [] \<Rightarrow> [] | c # cs \<Rightarrow> if c = CHR ''-'' then cs else s)"

definition fixed_point_string :: "nat \<Rightarrow> string \<Rightarrow> bool" where
  "fixed_point_string f s =
     (let body = unsigned_part s;
          whole = takeWhile is_digit body;
          rest = dropWhile is_digit body
      in whole \<noteq> [] \<and>
         (case rest of
            [] \<Rightarrow> False
          | c # decs \<Rightarrow> c = CHR ''.'' \<and> length decs = f \<and> list_all is_digit decs))"

definition fixed_point_value :: "string \<Rightarrow> rat" where
  "fixed_point_value s =
     (let body = unsigned_part s;
          v = of_nat (digits_value (filter is_digit body))
                / 10 ^ (length (dropWhile is_digit body) - 1)
      in if body = s then v else - v)"

definition shows_amount :: "nat \<Rightarrow> jsnum \<Rightarrow> string \<Rightarrow> bool" where
  "shows_amount f x s =
     (case x of
        NaN \<Rightarrow> False
      | Fin r \<Rightarrow> fixed_point_string f s \<and> \<bar>fixed_point_value s - r\<bar> \<le> 1 / (2 * 10 ^ f))"

text \<open>
  A USD amount is shown as the currency symbol followed by a string of 2 decimals, a
  percentage as a string of 2 decimals followed by the percent sign.
\<close>

definition usd_string :: "jsnum \<Rightarrow> string \<Rightarrow> bool" where
  "usd_string x s = (case s of [] \<Rightarrow> False | c # cs \<Rightarrow> c = CHR ''$'' \<and> shows_amount 2 x cs)"

definition percent_string :: "jsnum \<Rightarrow> string \<Rightarrow> bool" where
  "percent_string x s = (s \<noteq> [] \<and> last s = CHR ''%'' \<and> shows_amount 2 x (butlast s))"

text \<open>A finite number below \<open>10^21\<close> in magnitude: the range \<^verbatim>\<open>toFixed\<close> prints in digits.\<close>

fun plain :: "jsnum \<Rightarrow> bool" where
  "plain NaN = False"
| "plain (Fin r) = (\<bar>r\<bar> < 10 ^ 21)"

section \<open>Sample inputs\<close>

text \<open>The three tokens of the specification's scenario.\<close>

definition usdc :: token where
  "usdc = \<lparr>address = ''0xa0b8'', symbol = ''USDC'', balance = 500000000,
           decimals = Some 6, price = Some (Fin 1)\<rparr>"

definition dust :: token where
  "dust = \<lparr>address = ''0xd057'', symbol = ''DUST'', balance = 1,
           decimals = Some 18, price = Some (Fin (1 / 1000000))\<rparr>"

definition weth :: token where
  "weth = \<lparr>address = ''0xc02a'', symbol = ''WETH'', balance = 2 * 10 ^ 18,
           decimals = Some 18, price = Some (Fin 3000)\<rparr>"

text \<open>A token without decimals (one unit is one token), 100 units at 1 USD each.\<close>

definition ticket :: token where
  "ticket = \<lparr>address = ''0x71c7'', symbol = ''TICKET'', balance = 100,
             decimals = Some 0, price = Some (Fin 1)\<rparr>"

text \<open>A tenth of a WETH, priced at 2000 USD.\<close>

definition small_weth :: token where
  "small_weth = \<lparr>address = ''0xc02a'', symbol = ''WETH'', balance = 10 ^ 17,
                 decimals = Some 18, price = Some (Fin 2000)\<rparr>"

text \<open>A token whose price is absent.\<close>

definition unpriced :: token where
  "unpriced = \<lparr>address = ''0x5ca4'', symbol = ''SCAM'', balance = 10 ^ 24,
               decimals = Some 18, price = None\<rparr>"

text \<open>
  The result of the specification's scenario: the three tokens, 4000 resource tokens at
  5 USD and a gas price of 20 gwei.
\<close>

definition scenario_result :: profit_result where
  "scenario_result =
     \<lparr>uniAmount = Fin 4000,
      uniCostUSD = Fin 20000,
      totalJarValueUSD = Fin 6500,
      gasCostUSD = Fin (66 / 5),
      grossProfit = Fin (- 13500),
      netProfit = Fin (- 67566 / 5),
      profitPercentage = Fin (- 33783 / 500),
      minimumOutputUSD = Fin (12935 / 2),
      isProfitable = False,
      meetsThreshold = True,
      tokenBreakdown = [optimal_entry (Fin (18 / 5)) usdc, optimal_entry (Fin (18 / 5)) weth],
      dustTokens = [dust_entry (Fin (18 / 5)) dust],
      estimatedGas = 220000,
      allTokensCount = 3,
      filteredCount = 1,
      savedGasUSD = Fin (18 / 5)\<rparr>"

text \<open>A token held in a huge amount: \<open>10^21\<close> whole tokens at 1 USD each.\<close>

definition whale :: token where
  "whale = \<lparr>address = ''0x77a1'', symbol = ''WHALE'', balance = 10 ^ 39,
            decimals = Some 18, price = Some (Fin 1)\<rparr>"

section \<open>Floors of numerals\<close>

lemma floor_rat_numeral: "\<lfloor>(numeral a / numeral b :: rat)\<rfloor> = numeral a div numeral b"
  using floor_divide_of_int_eq [of "numeral a" "numeral b", where ?'a = rat] by simp

lemma floor_rat_one_numeral: "\<lfloor>(1 / numeral b :: rat)\<rfloor> = 1 div numeral b"
  using floor_divide_of_int_eq [of 1 "numeral b", where ?'a = rat] by simp

section \<open>Facts about calculateProfit\<close>

text \<open>The loop computes two filters of the input and a sum.\<close>

lemma token_of_optimal_entry: "token_of (optimal_entry c t) = t"
  by (simp add: token_of_def optimal_entry_def)

lemma token_of_dust_entry: "token_of (dust_entry c t) = t"
  by (simp add: token_of_def dust_entry_def)

lemma classify_loop_eq:
  "classify_loop c ts (os, ds, v) =
     (os @ map (optimal_entry c) (filter (claimable c) ts),
      ds @ map (dust_entry c) (filter (\<lambda>t. \<not> claimable c t) ts),
      foldl js_add v (map valueUSD_of (filter (claimable c) ts)))"
  by (induction ts arbitrary: os ds v) (simp_all add: claimable_def)

lemma calculateProfit_fields:
  "\<exists>r. calculateProfit ua up ts th gp = Fulfilled r
     \<and> tokenBreakdown r =
         map (optimal_entry (transferCostUSD_of gp ts))
           (filter (claimable (transferCostUSD_of gp ts)) ts)
     \<and> dustTokens r =
         map (dust_entry (transferCostUSD_of gp ts))
           (filter (\<lambda>t. \<not> claimable (transferCostUSD_of gp ts) t) ts)
     \<and> totalJarValueUSD r =
         foldl js_add (Fin 0)
           (map valueUSD_of (filter (claimable (transferCostUSD_of gp ts)) ts))
     \<and> estimatedGas r = BASE_GAS_COST + length (tokenBreakdown r) * TRANSFER_GAS_COST
     \<and> gasCostUSD r =
         js_mul (js_div (js_mul (Fin (of_nat (estimatedGas r))) gp) (Fin 1000000000))
           (ethPrice_of ts)
     \<and> uniCostUSD r = js_mul (parseFloat (formatEther ua)) up
     \<and> grossProfit r = js_sub (totalJarValueUSD r) (uniCostUSD r)
     \<and> netProfit r = js_sub (grossProfit r) (gasCostUSD r)
     \<and> isProfitable r = js_gt (netProfit r) (Fin 0)
     \<and> filteredCount r = length (dustTokens r)
     \<and> savedGasUSD r =
         js_mul (Fin (of_nat (length (dustTokens r)))) (transferCostUSD_of gp ts)"
  by (simp add: calculateProfit_def transferCostUSD_of_def Let_def classify_loop_eq)

lemmas eval_defs = calculateProfit_def Let_def transferCostUSD_of_def ethPrice_of_def
  TRANSFER_GAS_COST_def BASE_GAS_COST_def valueUSD_of_def balanceEth_of_def parseFloat_def
  formatUnits_def formatEther_def decimals_or_18_def token_of_def dust_entry_def
  optimal_entry_def DEFAULT_SLIPPAGE_TOLERANCE_def

lemmas sample_defs = usdc_def dust_def weth_def ticket_def small_weth_def unpriced_def

text \<open>The code's ETH price and transfer cost are the specification's.\<close>

lemma find_filter: "List.find P xs = (case filter P xs of [] \<Rightarrow> None | x # _ \<Rightarrow> Some x)"
  by (induction xs) auto

lemma ethPrice_of_spec: "ethPrice_of ts = weth_price_or_2000 ts"
  by (simp add: ethPrice_of_def weth_price_or_2000_def find_filter split: list.splits option.splits)

lemma transferCostUSD_of_spec:
  "transferCostUSD_of gp ts = perTransferCostUsd_spec gp (weth_price_or_2000 ts)"
  by (simp add: transferCostUSD_of_def perTransferCostUsd_spec_def ethPrice_of_spec
      TRANSFER_GAS_COST_def)

text \<open>
  The two arrays are the input filtered by the test of line 41 and by its negation, and for
  a token with non-zero decimals the value tested is the specification's.
\<close>

lemma claimable_eq: "claimable c = (\<lambda>t. js_gt (valueUSD_of t) c)"
  by (rule ext) (simp add: claimable_def)

lemma classification_by_code_value:
  "\<exists>r. calculateProfit ua up ts th gp = Fulfilled r
     \<and> map token_of (tokenBreakdown r)
         = filter (\<lambda>t. js_gt (valueUSD_of t) (transferCostUSD_of gp ts)) ts
     \<and> map token_of (dustTokens r)
         = filter (\<lambda>t. \<not> js_gt (valueUSD_of t) (transferCostUSD_of gp ts)) ts"
proof -
  let ?c = "transferCostUSD_of gp ts"
  obtain r where r: "calculateProfit ua up ts th gp = Fulfilled r"
    and tb: "tokenBreakdown r = map (optimal_entry ?c) (filter (claimable ?c) ts)"
    and du: "dustTokens r = map (dust_entry ?c) (filter (\<lambda>t. \<not> claimable ?c t) ts)"
    using calculateProfit_fields [of ua up ts th gp] by blast
  have m1: "map token_of (tokenBreakdown r) = filter (\<lambda>t. js_gt (valueUSD_of t) ?c) ts"
    by (simp add: tb o_def token_of_optimal_entry claimable_eq)
  have m2: "map token_of (dustTokens r) = filter (\<lambda>t. \<not> js_gt (valueUSD_of t) ?c) ts"
    by (simp add: du o_def token_of_dust_entry claimable_eq)
  from r m1 m2 show ?thesis by blast
qed

lemma valueUSD_of_spec_nonzero_decimals:
  "decimals t = Some d \<Longrightarrow> d \<noteq> 0 \<Longrightarrow>
     valueUSD_of t = valueUsd_spec (balance t) d (to_number (price t))"
  by (simp add: valueUSD_of_def balanceEth_of_def parseFloat_def formatUnits_def
      decimals_or_18_def valueUsd_spec_def)

text \<open>
  The selector never copies a property of the profit result, on any input; the promise it
  drops is fulfilled with the burn amount equal to the threshold and \<open>meetsThreshold\<close>
  true.
\<close>

lemma spread_profit_absent: "profit_props (calculateOptimalBurn ts up th gp) = None"
  by (simp add: calculateOptimalBurn_def Let_def)

lemma calculateProfit_at_threshold:
  "\<exists>r. calculateProfit th up ts th gp = Fulfilled r
     \<and> uniAmount r = parseFloat (formatEther th) \<and> meetsThreshold r"
  by (simp add: calculateProfit_def Let_def parseFloat_def split: prod.splits)

text \<open>Signs: prices and gas price that are not negative give costs that are not negative.\<close>

lemma ethPrice_of_not_negative:
  assumes "\<forall>t \<in> set ts. \<not> js_lt (to_number (price t)) (Fin 0)"
  shows "\<not> js_lt (ethPrice_of ts) (Fin 0)"
proof (cases "filter (\<lambda>t. symbol t = ''WETH'') ts")
  case Nil
  then show ?thesis by (simp add: ethPrice_of_spec weth_price_or_2000_def)
next
  case (Cons w ws)
  then have "w \<in> set (filter (\<lambda>t. symbol t = ''WETH'') ts)" by simp
  then have "w \<in> set ts" by simp
  with assms have "\<not> js_lt (to_number (price w)) (Fin 0)" by blast
  then show ?thesis by (simp add: ethPrice_of_spec weth_price_or_2000_def Cons)
qed

lemma transfer_cost_not_negative:
  assumes "\<not> js_lt gp (Fin 0)" and "\<not> js_lt e (Fin 0)" and "0 \<le> u"
  shows "\<not> js_lt (js_mul (js_mul (Fin u) (js_div gp (Fin 1000000000))) e) (Fin 0)"
  using assms by (cases gp; cases e) (simp_all add: not_less)

lemma no_profit_without_value:
  assumes "\<not> js_lt up (Fin 0)" and "\<not> js_lt gp (Fin 0)" and "\<not> js_lt e (Fin 0)"
    and "0 \<le> a" and "0 \<le> u"
  shows "\<not> js_gt (js_sub (js_sub (Fin 0) (js_mul (Fin a) up))
                 (js_mul (js_div (js_mul (Fin u) gp) (Fin 1000000000)) e)) (Fin 0)"
proof (cases up)
  case NaN then show ?thesis by simp
next
  case (Fin p)
  show ?thesis
  proof (cases gp)
    case NaN then show ?thesis by (simp add: Fin)
  next
    case g: (Fin g)
    show ?thesis
    proof (cases e)
      case NaN then show ?thesis by (simp add: Fin g)
    next
      case e: (Fin x)
      have "0 \<le> p" "0 \<le> g" "0 \<le> x"
        using assms(1-3) by (simp_all add: Fin g e not_less)
      then have "0 \<le> a * p" "0 \<le> u * g / 1000000000 * x"
        using assms(4,5) by simp_all
      then show ?thesis by (simp add: Fin g e not_less)
    qed
  qed
qed


text \<open>The ETH price does not depend on a token that is not the first \<open>WETH\<close> token.\<close>

lemma find_skip: "\<not> P t \<Longrightarrow> List.find P (pre @ t # post) = List.find P (pre @ post)"
  by (induction pre) simp_all

lemma ethPrice_of_skip:
  "symbol t \<noteq> ''WETH'' \<Longrightarrow> ethPrice_of (pre @ t # post) = ethPrice_of (pre @ post)"
  by (simp add: ethPrice_of_def find_skip)

lemma find_append_first:
  "List.find P (xs @ ys) = (case List.find P xs of None \<Rightarrow> List.find P ys | Some x \<Rightarrow> Some x)"
  by (induction xs) simp_all

lemma ethPrice_of_same:
  assumes "symbol t' = symbol t"
    and "symbol t \<noteq> ''WETH'' \<or> (\<exists>w \<in> set pre. symbol w = ''WETH'')"
  shows "ethPrice_of (pre @ t' # post) = ethPrice_of (pre @ t # post)"
proof (cases "symbol t = ''WETH''")
  case False
  with assms(1) show ?thesis by (simp add: ethPrice_of_skip)
next
  case True
  with assms(2) have "\<exists>w \<in> set pre. symbol w = ''WETH''" by simp
  then obtain x where "List.find (\<lambda>t. symbol t = ''WETH'') pre = Some x"
    by (cases "List.find (\<lambda>t. symbol t = ''WETH'') pre") (auto simp: find_None_iff)
  then show ?thesis by (simp add: ethPrice_of_def find_append_first)
qed

text \<open>The claimable value is a finite sum, and the net profit is monotone in it.\<close>

lemma claimable_Fin: "claimable c t \<Longrightarrow> \<exists>v k. valueUSD_of t = Fin v \<and> c = Fin k \<and> k < v"
  unfolding claimable_def by (cases "valueUSD_of t"; cases c) simp_all

lemma foldl_js_add_claimable:
  "foldl js_add (Fin a) (map valueUSD_of (filter (claimable c) ts))
     = Fin (a + sum_list (map (fin_val \<circ> valueUSD_of) (filter (claimable c) ts)))"
proof (induction ts arbitrary: a)
  case Nil
  then show ?case by simp
next
  case (Cons t ts)
  show ?case
  proof (cases "claimable c t")
    case True
    then obtain v where v: "valueUSD_of t = Fin v"
      using claimable_Fin by blast
    show ?thesis using True Cons.IH [of "a + v"] by (simp add: v add.assoc)
  next
    case False
    then show ?thesis using Cons.IH [of a] by simp
  qed
qed

lemma balanceEth_of_nonneg: "\<exists>b. balanceEth_of t = Fin b \<and> 0 \<le> b"
  by (simp add: balanceEth_of_def parseFloat_def formatUnits_def)

lemma net_not_less:
  "s \<le> s' \<Longrightarrow> \<not> js_lt (js_sub (js_sub (Fin s') u) g) (js_sub (js_sub (Fin s) u) g)"
  by (cases u; cases g) simp_all

section \<open>Partition of the input\<close>

text \<open>
  Claim C2. For every input token list, the arrays \<open>tokenBreakdown\<close> (claimable) and
  \<open>dustTokens\<close> (dust) of the result partition the input exactly: their lengths add up
  to the length of the input; the tokens they carry are, with multiplicity, the tokens
  of the input; and one predicate \<open>P\<close> on tokens selects the claimable entries, in the
  order of the input, while its negation selects the dust entries, so no position of the
  input is dropped or taken twice.
\<close>

theorem C2_partition:
  "\<exists>r. calculateProfit uniAmt uniPrice jarTokens threshold gasPrice = Fulfilled r
     \<and> length (tokenBreakdown r) + length (dustTokens r) = length jarTokens
     \<and> mset (map token_of (tokenBreakdown r)) + mset (map token_of (dustTokens r))
         = mset jarTokens
     \<and> (\<exists>P. map token_of (tokenBreakdown r) = filter P jarTokens
            \<and> map token_of (dustTokens r) = filter (\<lambda>t. \<not> P t) jarTokens)"
proof -
  let ?c = "transferCostUSD_of gasPrice jarTokens"
  obtain r where r: "calculateProfit uniAmt uniPrice jarTokens threshold gasPrice = Fulfilled r"
    and tb: "tokenBreakdown r = map (optimal_entry ?c) (filter (claimable ?c) jarTokens)"
    and du: "dustTokens r = map (dust_entry ?c) (filter (\<lambda>t. \<not> claimable ?c t) jarTokens)"
    using calculateProfit_fields by blast
  have m1: "map token_of (tokenBreakdown r) = filter (claimable ?c) jarTokens"
    by (simp add: tb o_def token_of_optimal_entry)
  have m2: "map token_of (dustTokens r) = filter (\<lambda>t. \<not> claimable ?c t) jarTokens"
    by (simp add: du o_def token_of_dust_entry)
  have len: "length (tokenBreakdown r) + length (dustTokens r) = length jarTokens"
    using sum_length_filter_compl [of "claimable ?c" jarTokens] by (simp add: tb du)
  have ms: "mset (map token_of (tokenBreakdown r)) + mset (map token_of (dustTokens r))
              = mset jarTokens"
    by (simp add: m1 m2)
  from r len ms m1 m2 show ?thesis by blast
qed


section \<open>Where the ETH price comes from\<close>

text \<open>
  Claim C9. The ETH price in USD is not an input of its own. For every call, the total gas
  cost, the saved gas, the cost to claim recorded on each dust entry, the net value
  recorded on each claimable entry and the test that classifies a token all use one
  price: the price of the first input token whose symbol is \<open>WETH\<close>, and the constant
  2000 when the list has no such token or that token's price is falsy (absent, \<open>0\<close> or
  \<open>NaN\<close>).
\<close>

theorem C9_eth_price_from_weth_token:
  "\<exists>r. calculateProfit uniAmt uniPrice jarTokens threshold gasPrice = Fulfilled r
     \<and> gasCostUSD r =
         js_mul (js_div (js_mul (Fin (of_nat (estimatedGas r))) gasPrice) (Fin 1000000000))
           (weth_price_or_2000 jarTokens)
     \<and> savedGasUSD r =
         js_mul (Fin (of_nat (filteredCount r)))
           (perTransferCostUsd_spec gasPrice (weth_price_or_2000 jarTokens))
     \<and> (\<forall>e \<in> set (dustTokens r).
           costToClaimUSD e
             = Some (perTransferCostUsd_spec gasPrice (weth_price_or_2000 jarTokens)))
     \<and> (\<forall>e \<in> set (tokenBreakdown r).
           netValueUSD e
             = Some (js_sub (valueUSD e)
                 (perTransferCostUsd_spec gasPrice (weth_price_or_2000 jarTokens))))
     \<and> (\<forall>t \<in> set jarTokens.
           (t \<in> token_of ` set (tokenBreakdown r))
             = js_gt (valueUSD_of t)
                 (perTransferCostUsd_spec gasPrice (weth_price_or_2000 jarTokens)))"
proof -
  let ?c = "transferCostUSD_of gasPrice jarTokens"
  let ?k = "perTransferCostUsd_spec gasPrice (weth_price_or_2000 jarTokens)"
  have ck: "?c = ?k" by (rule transferCostUSD_of_spec)
  obtain r where r: "calculateProfit uniAmt uniPrice jarTokens threshold gasPrice = Fulfilled r"
    and tb: "tokenBreakdown r = map (optimal_entry ?c) (filter (claimable ?c) jarTokens)"
    and du: "dustTokens r = map (dust_entry ?c) (filter (\<lambda>t. \<not> claimable ?c t) jarTokens)"
    and gc: "gasCostUSD r =
         js_mul (js_div (js_mul (Fin (of_nat (estimatedGas r))) gasPrice) (Fin 1000000000))
           (ethPrice_of jarTokens)"
    and fc: "filteredCount r = length (dustTokens r)"
    and sg: "savedGasUSD r = js_mul (Fin (of_nat (length (dustTokens r)))) ?c"
    using calculateProfit_fields [of uniAmt uniPrice jarTokens threshold gasPrice] by blast
  have g: "gasCostUSD r =
         js_mul (js_div (js_mul (Fin (of_nat (estimatedGas r))) gasPrice) (Fin 1000000000))
           (weth_price_or_2000 jarTokens)"
    using gc by (simp add: ethPrice_of_spec)
  have s: "savedGasUSD r = js_mul (Fin (of_nat (filteredCount r))) ?k"
    using sg by (simp add: fc ck)
  have d: "\<forall>e \<in> set (dustTokens r). costToClaimUSD e = Some ?k"
    unfolding du ck by (auto simp: dust_entry_def)
  have o: "\<forall>e \<in> set (tokenBreakdown r). netValueUSD e = Some (js_sub (valueUSD e) ?k)"
    unfolding tb ck by (auto simp: optimal_entry_def)
  have m: "\<forall>t \<in> set jarTokens.
      (t \<in> token_of ` set (tokenBreakdown r)) = js_gt (valueUSD_of t) ?k"
  proof
    fix t assume t: "t \<in> set jarTokens"
    have "token_of ` set (tokenBreakdown r) = set (filter (claimable ?c) jarTokens)"
      unfolding tb by (simp add: image_image token_of_optimal_entry)
    then show "(t \<in> token_of ` set (tokenBreakdown r)) = js_gt (valueUSD_of t) ?k"
      using t by (simp add: claimable_def ck)
  qed
  from r g s d o m show ?thesis by blast
qed

text \<open>
  The specification's scenario (USDC, DUST, WETH at 3000 USD, gas price 20 gwei): the gas
  of two transfers costs 13.2 USD and a transfer costs 3.6 USD, both at the WETH token's
  price.
\<close>

theorem C9_witness:
  "\<exists>r. calculateProfit (4000 * 10 ^ 18) (Fin 5) [usdc, dust, weth] (4000 * 10 ^ 18) (Fin 20)
         = Fulfilled r
     \<and> estimatedGas r = 220000
     \<and> gasCostUSD r = Fin (66 / 5)
     \<and> map costToClaimUSD (dustTokens r) = [Some (Fin (18 / 5))]
     \<and> map token_of (tokenBreakdown r) = [usdc, weth]"
proof -
  have w: "weth_price_or_2000 [usdc, dust, weth] = Fin 3000"
    by (simp add: weth_price_or_2000_def sample_defs)
  have k: "perTransferCostUsd_spec (Fin 20) (Fin 3000) = Fin (18 / 5)"
    by (simp add: perTransferCostUsd_spec_def)
  show ?thesis
    using C9_eth_price_from_weth_token
      [of "4000 * 10 ^ 18" "Fin 5" "[usdc, dust, weth]" "4000 * 10 ^ 18" "Fin 20"]
    unfolding w k
    by (auto simp: eval_defs sample_defs)
qed


section \<open>Classification\<close>

text \<open>
  Claim C1. A token is claimable if and only if its value in USD, the balance divided by
  \<open>10^decimals\<close> times the price, is strictly greater than the cost of one transfer.
  The code divides by \<open>10^18\<close> when \<open>decimals\<close> is \<open>0\<close>: at gas price 20 gwei and
  the fallback ETH price a transfer costs 2.4 USD, and 100 units of a token without
  decimals at 1 USD each are worth 100 USD, yet the token is valued at \<open>10^-16\<close> USD and
  put into the dust array.
\<close>

theorem C1_zero_decimals_token_misclassified:
  "then_promise (map token_of \<circ> tokenBreakdown)
       (calculateProfit (4000 * 10 ^ 18) (Fin 5) [ticket] (4000 * 10 ^ 18) (Fin 20))
     = Fulfilled []
   \<and> then_promise (map token_of \<circ> dustTokens)
       (calculateProfit (4000 * 10 ^ 18) (Fin 5) [ticket] (4000 * 10 ^ 18) (Fin 20))
     = Fulfilled [ticket]
   \<and> then_promise (map valueUSD \<circ> dustTokens)
       (calculateProfit (4000 * 10 ^ 18) (Fin 5) [ticket] (4000 * 10 ^ 18) (Fin 20))
     = Fulfilled [Fin (1 / 10 ^ 16)]
   \<and> valueUsd_spec (balance ticket) 0 (to_number (price ticket)) = Fin 100
   \<and> perTransferCostUsd_spec (Fin 20) (weth_price_or_2000 [ticket]) = Fin (12 / 5)
   \<and> js_gt (valueUsd_spec (balance ticket) 0 (to_number (price ticket)))
       (perTransferCostUsd_spec (Fin 20) (weth_price_or_2000 [ticket]))"
  by (simp add: eval_defs sample_defs valueUsd_spec_def perTransferCostUsd_spec_def
      weth_price_or_2000_def)


section \<open>The burn selector\<close>

text \<open>
  Claim C3. \<^verbatim>\<open>calculateOptimalBurn\<close> returns a result whose resource amount equals the
  threshold in whole units and whose \<open>meetsThreshold\<close> is true. At a threshold of 4000
  tokens the returned object has \<open>optimalBurnAmount = 4000\<close> and nothing else but
  \<open>optimalBurnWei\<close>: no property of the profit result is copied, so \<open>meetsThreshold\<close>
  is absent, although the promise of \<^verbatim>\<open>calculateProfit\<close> is fulfilled with
  \<open>meetsThreshold = true\<close>.
\<close>

theorem C3_burn_result_without_profit_fields:
  "calculateOptimalBurn [] (Fin 5) (4000 * 10 ^ 18) (Fin 20)
     = \<lparr>optimalBurnAmount = Fin 4000, optimalBurnWei = 4000 * 10 ^ 18, profit_props = None\<rparr>
   \<and> map_option meetsThreshold
       (profit_props (calculateOptimalBurn [] (Fin 5) (4000 * 10 ^ 18) (Fin 20))) = None
   \<and> then_promise meetsThreshold
       (calculateProfit (4000 * 10 ^ 18) (Fin 5) [] (4000 * 10 ^ 18) (Fin 20)) = Fulfilled True"
  by (simp add: calculateOptimalBurn_def eval_defs)


section \<open>Empty claimable set\<close>

text \<open>
  Claim C6. For every input of the data model (resource price, gas price and token
  prices are not negative), the call is fulfilled with a result, never rejected; and when
  the claimable array of that result is empty, the claimable value is \<open>0\<close>, the gross
  profit is the negated resource cost, the net profit is the negated resource cost minus
  the cost in USD of the base gas (100000 units), and \<open>isProfitable\<close> is false.
\<close>

theorem C6_empty_claimable_set:
  assumes up: "\<not> js_lt uniPrice (Fin 0)"
    and gp: "\<not> js_lt gasPrice (Fin 0)"
    and tp: "\<forall>t \<in> set jarTokens. \<not> js_lt (to_number (price t)) (Fin 0)"
  shows "\<exists>r. calculateProfit uniAmt uniPrice jarTokens threshold gasPrice = Fulfilled r
     \<and> (tokenBreakdown r = [] \<longrightarrow>
          totalJarValueUSD r = Fin 0
        \<and> grossProfit r = js_sub (Fin 0) (uniCostUSD r)
        \<and> netProfit r =
            js_sub (js_sub (Fin 0) (uniCostUSD r))
              (js_mul (js_div (js_mul (Fin 100000) gasPrice) (Fin 1000000000))
                 (ethPrice_of jarTokens))
        \<and> \<not> isProfitable r)"
proof -
  let ?c = "transferCostUSD_of gasPrice jarTokens"
  let ?base = "js_mul (js_div (js_mul (Fin 100000) gasPrice) (Fin 1000000000))
                 (ethPrice_of jarTokens)"
  obtain r where r: "calculateProfit uniAmt uniPrice jarTokens threshold gasPrice = Fulfilled r"
    and tb: "tokenBreakdown r = map (optimal_entry ?c) (filter (claimable ?c) jarTokens)"
    and tv: "totalJarValueUSD r
               = foldl js_add (Fin 0) (map valueUSD_of (filter (claimable ?c) jarTokens))"
    and eg: "estimatedGas r = BASE_GAS_COST + length (tokenBreakdown r) * TRANSFER_GAS_COST"
    and gc: "gasCostUSD r =
         js_mul (js_div (js_mul (Fin (of_nat (estimatedGas r))) gasPrice) (Fin 1000000000))
           (ethPrice_of jarTokens)"
    and uc: "uniCostUSD r = js_mul (parseFloat (formatEther uniAmt)) uniPrice"
    and gr: "grossProfit r = js_sub (totalJarValueUSD r) (uniCostUSD r)"
    and np: "netProfit r = js_sub (grossProfit r) (gasCostUSD r)"
    and ip: "isProfitable r = js_gt (netProfit r) (Fin 0)"
    using calculateProfit_fields [of uniAmt uniPrice jarTokens threshold gasPrice] by blast
  have "totalJarValueUSD r = Fin 0
        \<and> grossProfit r = js_sub (Fin 0) (uniCostUSD r)
        \<and> netProfit r = js_sub (js_sub (Fin 0) (uniCostUSD r)) ?base
        \<and> \<not> isProfitable r" if empty: "tokenBreakdown r = []"
  proof -
    from empty have f: "filter (claimable ?c) jarTokens = []"
      by (simp add: tb)
    have v: "totalJarValueUSD r = Fin 0" by (simp add: tv f)
    have g: "grossProfit r = js_sub (Fin 0) (uniCostUSD r)" by (simp add: gr v)
    have b: "gasCostUSD r = ?base"
      by (simp add: gc eg empty BASE_GAS_COST_def)
    have n: "netProfit r = js_sub (js_sub (Fin 0) (uniCostUSD r)) ?base"
      by (simp add: np g b)
    have e: "\<not> js_lt (ethPrice_of jarTokens) (Fin 0)"
      using tp by (rule ethPrice_of_not_negative)
    have "\<not> js_gt (js_sub (js_sub (Fin 0) (js_mul (Fin (formatEther uniAmt)) uniPrice)) ?base)
              (Fin 0)"
      using up gp e by (rule no_profit_without_value) (simp_all add: formatEther_def formatUnits_def)
    then have p: "\<not> isProfitable r"
      by (simp add: ip n uc parseFloat_def)
    from v g n p show ?thesis by blast
  qed
  with r show ?thesis by blast
qed

text \<open>
  One dust token and 4000 resource tokens at 5 USD: nothing is claimable, the gross profit
  is \<open>-20000\<close> and the net profit \<open>-20004\<close> (the base gas costs 4 USD at 20 gwei and
  2000 USD per ETH).
\<close>

theorem C6_witness:
  "\<exists>r. calculateProfit (4000 * 10 ^ 18) (Fin 5) [dust] (4000 * 10 ^ 18) (Fin 20) = Fulfilled r
     \<and> tokenBreakdown r = []
     \<and> totalJarValueUSD r = Fin 0
     \<and> grossProfit r = Fin (- 20000)
     \<and> netProfit r = Fin (- 20004)
     \<and> \<not> isProfitable r"
proof -
  have h1: "\<not> js_lt (Fin 5) (Fin 0)" by simp
  have h2: "\<not> js_lt (Fin 20) (Fin 0)" by simp
  have h3: "\<forall>t \<in> set [dust]. \<not> js_lt (to_number (price t)) (Fin 0)"
    by (simp add: dust_def)
  show ?thesis
    using C6_empty_claimable_set [OF h1 h2 h3, of "4000 * 10 ^ 18" "4000 * 10 ^ 18"]
    by (auto simp: eval_defs sample_defs)
qed


section \<open>Gas from the filtered set\<close>


lemma bit_length_bounds:
  "0 < n \<Longrightarrow> 2 ^ (bit_length n - 1) \<le> n \<and> n < 2 ^ bit_length n"
proof (induction n rule: bit_length.induct)
  case (1 n)
  then have n: "n \<noteq> 0" by simp
  have b: "bit_length n = 1 + bit_length (n div 2)"
    using n by (subst bit_length.simps) simp
  show ?case
  proof (cases "n div 2 = 0")
    case True
    then have "n = 1" using n by (simp add: div_eq_0_iff) 
    moreover have "bit_length (n div 2) = 0"
      using True by (subst bit_length.simps) simp
    ultimately show ?thesis using b by simp
  next
    case False
    then have "0 < n div 2" by simp
    from "1.IH" [OF n this]
    have lo: "2 ^ (bit_length (n div 2) - 1) \<le> n div 2" and hi: "n div 2 < 2 ^ bit_length (n div 2)"
      by simp_all
    have pos: "0 < bit_length (n div 2)"
      using False by (subst bit_length.simps) simp
    then have e: "2 ^ bit_length (n div 2) = 2 * (2::nat) ^ (bit_length (n div 2) - 1)"
      by (cases "bit_length (n div 2)") simp_all
    have "2 ^ (bit_length n - 1) \<le> n"
      using lo by (simp add: b e) 
    moreover have "n < 2 ^ bit_length n"
      using hi by (simp add: b) 
    ultimately show ?thesis by simp
  qed
qed

lemma bit_length_pos: "0 < n \<Longrightarrow> 0 < bit_length n"
  by (subst bit_length.simps) simp

lemma pow2_pos: "0 < pow2 e"
  by (simp add: pow2_def)

lemma pow2_powi: "pow2 e = power_int 2 e"
  by (simp add: pow2_def power_int_def inverse_eq_divide power_one_over)

lemma pow2_add: "pow2 (e + k) = pow2 e * pow2 k"
  by (simp add: pow2_powi power_int_add)

lemma pow2_nat: "pow2 (int k) = 2 ^ k" and pow2_neg_nat: "pow2 (- int k) = 1 / 2 ^ k"
  by (simp_all add: pow2_def)

lemma binade_bounds:
  assumes "0 < x"
  shows "pow2 (binade x) \<le> x \<and> x < 2 * pow2 (binade x)"
proof (cases "1 \<le> x")
  case True
  define n where "n = nat \<lfloor>x\<rfloor>"
  define b where "b = bit_length n"
  have fl: "1 \<le> \<lfloor>x\<rfloor>" using True by simp
  then have n0: "0 < n" by (simp add: n_def)
  have nf: "of_nat n = (of_int \<lfloor>x\<rfloor> :: rat)"
    using fl by (simp add: n_def)
  have nx: "of_nat n \<le> x" "x < of_nat n + 1"
    unfolding nf using floor_correct [of x] by simp_all
  from bit_length_bounds [OF n0] have lo: "2 ^ (b - 1) \<le> n" and hi: "n < 2 ^ b"
    by (simp_all add: b_def)
  have bp: "0 < b" using bit_length_pos [OF n0] by (simp add: b_def)
  have bd: "binade x = int (b - 1)"
    using True bp by (simp add: binade_def n_def b_def)
  have p: "pow2 (binade x) = 2 ^ (b - 1)" by (simp add: bd pow2_nat)
  have r1: "(2::rat) ^ (b - 1) \<le> of_nat n"
    using lo by (metis of_nat_le_iff of_nat_numeral of_nat_power)
  have 1: "pow2 (binade x) \<le> x"
    unfolding p using r1 nx(1) by (rule order_trans)
  have "n + 1 \<le> 2 ^ b" using hi by simp
  then have r2: "of_nat (n + 1) \<le> (2::rat) ^ b"
    by (metis of_nat_le_iff of_nat_numeral of_nat_power)
  have "x < of_nat (n + 1)" using nx(2) by simp
  then have "x < 2 ^ b" using r2 by (rule less_le_trans)
  moreover have "(2::rat) ^ b = 2 * 2 ^ (b - 1)"
    using bp by (cases b) simp_all
  ultimately have 2: "x < 2 * pow2 (binade x)" by (simp add: p)
  from 1 2 show ?thesis ..
next
  case False
  define y where "y = 1 / x"
  define n where "n = nat \<lfloor>y\<rfloor>"
  define b where "b = bit_length n"
  have y1: "1 < y" using False assms by (simp add: y_def)
  then have fl: "1 \<le> \<lfloor>y\<rfloor>" by simp
  then have n0: "0 < n" by (simp add: n_def)
  have nf: "of_nat n = (of_int \<lfloor>y\<rfloor> :: rat)"
    using fl by (simp add: n_def)
  have ny: "of_nat n \<le> y" "y < of_nat n + 1"
    unfolding nf using floor_correct [of y] by simp_all
  from bit_length_bounds [OF n0] have lo: "2 ^ (b - 1) \<le> n" and hi: "n < 2 ^ b"
    by (simp_all add: b_def)
  have bp: "0 < b" using bit_length_pos [OF n0] by (simp add: b_def)
  have r1: "(2::rat) ^ (b - 1) \<le> of_nat n"
    using lo by (metis of_nat_le_iff of_nat_numeral of_nat_power)
  have ylo: "2 ^ (b - 1) \<le> y"
    using r1 ny(1) by (rule order_trans)
  have "n + 1 \<le> 2 ^ b" using hi by simp
  then have r2: "of_nat (n + 1) \<le> (2::rat) ^ b"
    by (metis of_nat_le_iff of_nat_numeral of_nat_power)
  have "y < of_nat (n + 1)" using ny(2) by simp
  then have yhi: "y < 2 ^ b" using r2 by (rule less_le_trans)
  have x: "x = 1 / y" using assms by (simp add: y_def)
  have ypos: "0 < y" using y1 by simp
  have xhi: "x \<le> 1 / 2 ^ (b - 1)"
    unfolding x using ylo by (simp add: frac_le)
  have xlo: "1 / 2 ^ b < x"
    unfolding x using yhi ypos by (simp add: frac_less2)
  have two: "(2::rat) ^ b = 2 * 2 ^ (b - 1)"
    using bp by (cases b) simp_all
  show ?thesis
  proof (cases "x * 2 ^ (b - 1) = 1")
    case True
    have bd: "binade x = - int (b - 1)"
      using False True bp by (simp add: binade_def y_def n_def b_def Let_def)
    have p: "pow2 (binade x) = 1 / 2 ^ (b - 1)"
      by (simp add: bd pow2_neg_nat)
    have xe: "x = 1 / 2 ^ (b - 1)"
      using True by (simp add: field_simps)
    have "pow2 (binade x) = x"
      unfolding p using xe by (rule sym)
    then show ?thesis
      using assms by simp
  next
    case ne: False
    have bd: "binade x = - int b"
      using False ne by (simp add: binade_def y_def n_def b_def Let_def)
    have "x \<noteq> 1 / 2 ^ (b - 1)"
      using ne by (auto simp: field_simps)
    with xhi have "x < 1 / 2 ^ (b - 1)" by simp
    moreover have "2 * (1 / (2::rat) ^ b) = 1 / 2 ^ (b - 1)"
      by (simp add: two)
    moreover have p: "pow2 (binade x) = 1 / 2 ^ b"
      by (simp add: bd pow2_neg_nat)
    ultimately show ?thesis
      unfolding p using xlo by simp
  qed
qed

lemma round_half_even_bounds:
  "\<lfloor>a\<rfloor> \<le> round_half_even a \<and> round_half_even a \<le> \<lfloor>a\<rfloor> + 1"
  by (simp add: round_half_even_def Let_def)

lemma round_half_even_close: "\<bar>of_int (round_half_even a) - a\<bar> \<le> 1 / 2"
proof -
  have l1: "of_int \<lfloor>a\<rfloor> \<le> a" and l2: "a < of_int \<lfloor>a\<rfloor> + 1"
    using floor_correct [of a] by simp_all
  show ?thesis
    unfolding round_half_even_def Let_def using l1 l2 by (auto simp: abs_le_iff)
qed

lemma round_half_even_tie:
  "a - of_int \<lfloor>a\<rfloor> = 1 / 2 \<Longrightarrow> even (round_half_even a)"
  by (simp add: round_half_even_def Let_def)

lemma round_double_nearest:
  assumes "x \<noteq> 0"
  shows "\<exists>m. round_double x = sgn x * of_int m * pow2 (binade \<bar>x\<bar> - 52)
           \<and> 2 ^ 52 \<le> m \<and> m \<le> 2 ^ 53
           \<and> \<bar>round_double x - x\<bar> \<le> pow2 (binade \<bar>x\<bar> - 52) / 2"
proof -
  define u where "u = pow2 (binade \<bar>x\<bar> - 52)"
  define a where "a = \<bar>x\<bar> / u"
  define m where "m = round_half_even a"
  have up: "0 < u" by (simp add: u_def pow2_pos)
  have "pow2 (binade \<bar>x\<bar>) = pow2 ((binade \<bar>x\<bar> - 52) + int 52)" by simp
  also have "\<dots> = u * 2 ^ 52" unfolding pow2_add pow2_nat u_def ..
  finally have pb: "pow2 (binade \<bar>x\<bar>) = u * 2 ^ 52" .
  have ax: "0 < \<bar>x\<bar>" using assms by simp
  from binade_bounds [OF ax] have lo: "u * 2 ^ 52 \<le> \<bar>x\<bar>" and hi: "\<bar>x\<bar> < 2 * (u * 2 ^ 52)"
    by (simp_all add: pb)
  have alo: "2 ^ 52 \<le> a"
    using lo up by (simp add: a_def pos_le_divide_eq mult.commute)
  have ahi: "a < 2 ^ 53"
    using hi up by (simp add: a_def pos_divide_less_eq mult.commute)
  have "(of_int (2 ^ 52) :: rat) \<le> a" using alo by simp
  then have flo: "2 ^ 52 \<le> \<lfloor>a\<rfloor>" by (simp only: le_floor_iff)
  have "a < (of_int (2 ^ 53) :: rat)" using ahi by simp
  then have fhi: "\<lfloor>a\<rfloor> < 2 ^ 53" by (simp only: floor_less_iff)
  have m1: "2 ^ 52 \<le> m" and m2: "m \<le> 2 ^ 53"
    using round_half_even_bounds [of a] flo fhi unfolding m_def by linarith+
  have rd: "round_double x = sgn x * of_int m * u"
    using assms by (simp add: round_double_def Let_def u_def a_def m_def)
  have xa: "x = sgn x * (a * u)"
    using up by (simp add: a_def sgn_mult_abs)
  have "round_double x - x = sgn x * ((of_int m - a) * u)"
    unfolding rd by (subst xa) (simp add: algebra_simps)
  then have "\<bar>round_double x - x\<bar> = \<bar>of_int m - a\<bar> * u"
    using assms up by (simp add: abs_mult abs_sgn_eq)
  also have "\<dots> \<le> (1 / 2) * u"
    using round_half_even_close [of a] up by (simp add: m_def mult_right_mono)
  finally have cl: "\<bar>round_double x - x\<bar> \<le> u / 2" by simp
  from rd m1 m2 cl show ?thesis unfolding u_def by blast
qed



section \<open>Falsy decimals\<close>

text \<open>
  Claim C10. For every token whose \<open>decimals\<close> is absent or \<open>0\<close>, the entry that
  \<^verbatim>\<open>calculateProfit\<close> builds for it has the balance divided by \<open>10^18\<close> as its
  whole-unit balance, and its value is computed from that: a token with 0 decimals is
  scaled down by \<open>10^18\<close>.
\<close>

theorem C10_falsy_decimals_read_as_18:
  "\<exists>r. calculateProfit uniAmt uniPrice jarTokens threshold gasPrice = Fulfilled r
     \<and> (\<forall>e \<in> set (tokenBreakdown r @ dustTokens r).
           decimals e = None \<or> decimals e = Some 0 \<longrightarrow>
             balanceEth e = Fin (of_nat (balance e) / 10 ^ 18)
           \<and> valueUSD e = js_mul (Fin (of_nat (balance e) / 10 ^ 18)) (to_number (price e)))"
proof -
  let ?c = "transferCostUSD_of gasPrice jarTokens"
  obtain r where r: "calculateProfit uniAmt uniPrice jarTokens threshold gasPrice = Fulfilled r"
    and tb: "tokenBreakdown r = map (optimal_entry ?c) (filter (claimable ?c) jarTokens)"
    and du: "dustTokens r = map (dust_entry ?c) (filter (\<lambda>t. \<not> claimable ?c t) jarTokens)"
    using calculateProfit_fields [of uniAmt uniPrice jarTokens threshold gasPrice] by blast
  have "balanceEth e = Fin (of_nat (balance e) / 10 ^ 18)
         \<and> valueUSD e = js_mul (Fin (of_nat (balance e) / 10 ^ 18)) (to_number (price e))"
    if e: "e \<in> set (tokenBreakdown r @ dustTokens r)"
      and d: "decimals e = None \<or> decimals e = Some 0" for e
  proof -
    from e obtain t where "e = optimal_entry ?c t \<or> e = dust_entry ?c t"
      by (auto simp: tb du)
    with d show ?thesis
      by (auto simp: optimal_entry_def dust_entry_def balanceEth_of_def valueUSD_of_def
          parseFloat_def formatUnits_def decimals_or_18_def)
  qed
  with r show ?thesis by blast
qed

text \<open>
  A token with 0 decimals and 100 units, next to USDC with 6 decimals: the first has the
  whole-unit balance \<open>100 / 10^18\<close> and is dust, the second has 500.
\<close>

theorem C10_witness:
  "\<exists>r. calculateProfit (4000 * 10 ^ 18) (Fin 5) [ticket, usdc] (4000 * 10 ^ 18) (Fin 20)
         = Fulfilled r
     \<and> map token_of (dustTokens r) = [ticket]
     \<and> map balanceEth (dustTokens r) = [Fin (100 / 10 ^ 18)]
     \<and> map balanceEth (tokenBreakdown r) = [Fin 500]"
  using C10_falsy_decimals_read_as_18
    [of "4000 * 10 ^ 18" "Fin 5" "[ticket, usdc]" "4000 * 10 ^ 18" "Fin 20"]
  by (auto simp: eval_defs sample_defs)

section \<open>Monotonicity in a claimable token's price\<close>

text \<open>
  Claim C4, as amended. Take an input in which a token is claimable that is not the
  source of the ETH price: its symbol is not \<open>WETH\<close>, or a token with the symbol
  \<open>WETH\<close> stands before it in the list. Raising that token's price, every other field
  of the input unchanged, never gives a smaller net profit.
\<close>

theorem C4_price_monotone_off_eth_price_source:
  assumes src: "symbol t \<noteq> ''WETH'' \<or> (\<exists>w \<in> set pre. symbol w = ''WETH'')"
    and pr: "to_number (price t) = Fin p"
    and le: "p \<le> p'"
    and cl: "claimable (transferCostUSD_of gasPrice (pre @ t # post)) t"
  shows "\<exists>r r'.
      calculateProfit uniAmt uniPrice (pre @ t # post) threshold gasPrice = Fulfilled r
    \<and> calculateProfit uniAmt uniPrice (pre @ t\<lparr>price := Some (Fin p')\<rparr> # post) threshold gasPrice
        = Fulfilled r'
    \<and> t \<in> token_of ` set (tokenBreakdown r)
    \<and> \<not> js_lt (netProfit r') (netProfit r)"
proof -
  let ?t' = "t\<lparr>price := Some (Fin p')\<rparr>"
  let ?ts = "pre @ t # post" and ?ts' = "pre @ ?t' # post"
  let ?c = "transferCostUSD_of gasPrice ?ts"
  have e': "ethPrice_of ?ts' = ethPrice_of ?ts"
    using src by (intro ethPrice_of_same) simp_all
  have c': "transferCostUSD_of gasPrice ?ts' = ?c"
    by (simp add: transferCostUSD_of_def e')
  obtain b where b: "balanceEth_of t = Fin b" and b0: "0 \<le> b"
    using balanceEth_of_nonneg by blast
  have b': "balanceEth_of ?t' = Fin b"
    using b by (simp add: balanceEth_of_def)
  have v: "valueUSD_of t = Fin (b * p)"
    by (simp add: valueUSD_of_def b pr)
  have v': "valueUSD_of ?t' = Fin (b * p')"
    by (simp add: valueUSD_of_def b')
  obtain k where k: "?c = Fin k" and kv: "k < b * p"
    using claimable_Fin [OF cl] v by auto
  have mono: "b * p \<le> b * p'"
    using le b0 by (rule mult_left_mono)
  have cl': "claimable ?c ?t'"
    using kv mono by (simp add: claimable_def v' k)
  let ?F = "filter (claimable ?c)"
  have f: "?F ?ts = ?F pre @ t # ?F post" using cl by simp
  have f': "?F ?ts' = ?F pre @ ?t' # ?F post" using cl' by simp
  let ?sum = "\<lambda>xs. sum_list (map (fin_val \<circ> valueUSD_of) xs)"
  obtain r where r: "calculateProfit uniAmt uniPrice ?ts threshold gasPrice = Fulfilled r"
    and tb: "tokenBreakdown r = map (optimal_entry ?c) (?F ?ts)"
    and tv: "totalJarValueUSD r = foldl js_add (Fin 0) (map valueUSD_of (?F ?ts))"
    and eg: "estimatedGas r = BASE_GAS_COST + length (tokenBreakdown r) * TRANSFER_GAS_COST"
    and gc: "gasCostUSD r =
         js_mul (js_div (js_mul (Fin (of_nat (estimatedGas r))) gasPrice) (Fin 1000000000))
           (ethPrice_of ?ts)"
    and uc: "uniCostUSD r = js_mul (parseFloat (formatEther uniAmt)) uniPrice"
    and gp: "grossProfit r = js_sub (totalJarValueUSD r) (uniCostUSD r)"
    and np: "netProfit r = js_sub (grossProfit r) (gasCostUSD r)"
    using calculateProfit_fields [of uniAmt uniPrice ?ts threshold gasPrice] by blast
  obtain r' where r': "calculateProfit uniAmt uniPrice ?ts' threshold gasPrice = Fulfilled r'"
    and tb': "tokenBreakdown r' = map (optimal_entry ?c) (?F ?ts')"
    and tv': "totalJarValueUSD r' = foldl js_add (Fin 0) (map valueUSD_of (?F ?ts'))"
    and eg': "estimatedGas r' = BASE_GAS_COST + length (tokenBreakdown r') * TRANSFER_GAS_COST"
    and gc': "gasCostUSD r' =
         js_mul (js_div (js_mul (Fin (of_nat (estimatedGas r'))) gasPrice) (Fin 1000000000))
           (ethPrice_of ?ts)"
    and uc': "uniCostUSD r' = js_mul (parseFloat (formatEther uniAmt)) uniPrice"
    and gp': "grossProfit r' = js_sub (totalJarValueUSD r') (uniCostUSD r')"
    and np': "netProfit r' = js_sub (grossProfit r') (gasCostUSD r')"
    using calculateProfit_fields [of uniAmt uniPrice ?ts' threshold gasPrice]
    unfolding c' e' by blast
  have len: "length (tokenBreakdown r') = length (tokenBreakdown r)"
    unfolding tb tb' f f' by simp
  have gas: "gasCostUSD r' = gasCostUSD r"
    by (simp add: gc gc' eg eg' len)
  have s: "totalJarValueUSD r = Fin (?sum (?F ?ts))"
    using foldl_js_add_claimable [of 0 ?c ?ts] by (simp add: tv)
  have s': "totalJarValueUSD r' = Fin (?sum (?F ?ts'))"
    using foldl_js_add_claimable [of 0 ?c ?ts'] by (simp add: tv')
  have sums: "?sum (?F ?ts) \<le> ?sum (?F ?ts')"
    unfolding f f' using mono by (simp add: v v')
  have mem: "t \<in> token_of ` set (tokenBreakdown r)"
  proof -
    have "optimal_entry ?c t \<in> set (tokenBreakdown r)" unfolding tb f by simp
    then have "token_of (optimal_entry ?c t) \<in> token_of ` set (tokenBreakdown r)"
      by (rule imageI)
    then show ?thesis by (simp add: token_of_optimal_entry)
  qed
  have "\<not> js_lt (netProfit r') (netProfit r)"
    unfolding np np' gp gp' gas uc uc' s s' using sums by (rule net_not_less)
  with r r' mem show ?thesis by blast
qed

text \<open>
  The specification's scenario with the price of USDC raised from 1 to 2 USD: the net
  profit goes from \<open>-13513.2\<close> to \<open>-13013.2\<close>.
\<close>

theorem C4_witness:
  "\<exists>r r'.
      calculateProfit (4000 * 10 ^ 18) (Fin 5) [usdc, dust, weth] (4000 * 10 ^ 18) (Fin 20)
        = Fulfilled r
    \<and> calculateProfit (4000 * 10 ^ 18) (Fin 5) [usdc\<lparr>price := Some (Fin 2)\<rparr>, dust, weth]
          (4000 * 10 ^ 18) (Fin 20)
        = Fulfilled r'
    \<and> netProfit r = Fin (- 67566 / 5)
    \<and> netProfit r' = Fin (- 65066 / 5)
    \<and> \<not> js_lt (netProfit r') (netProfit r)"
proof -
  have h1: "symbol usdc \<noteq> ''WETH'' \<or> (\<exists>w \<in> set []. symbol w = ''WETH'')"
    by (simp add: usdc_def)
  have h2: "to_number (price usdc) = Fin 1" by (simp add: usdc_def)
  have h3: "(1::rat) \<le> 2" by simp
  have h4: "claimable (transferCostUSD_of (Fin 20) ([] @ usdc # [dust, weth])) usdc"
    by (simp add: claimable_def eval_defs sample_defs)
  show ?thesis
    using C4_price_monotone_off_eth_price_source
      [OF h1 h2 h3 h4, of "4000 * 10 ^ 18" "Fin 5" "4000 * 10 ^ 18"]
    by (auto simp: eval_defs sample_defs)
qed

text \<open>
  Claim C4 as stated fails on the token that gives the ETH price. A tenth of a WETH at gas
  price 1000 gwei is claimable at 2000 USD (200 USD against 120 USD for the transfer) and at
  3000 USD; the gas of the transaction (0.16 ETH) is priced with the same number, so the
  net profit falls from \<open>-120\<close> to \<open>-180\<close> when the price of WETH rises.
\<close>

theorem C4_weth_price_rise_lowers_net_profit:
  "claimable (transferCostUSD_of (Fin 1000) [small_weth]) small_weth
   \<and> then_promise (map token_of \<circ> tokenBreakdown)
       (calculateProfit 0 (Fin 5) [small_weth] 0 (Fin 1000)) = Fulfilled [small_weth]
   \<and> then_promise netProfit
       (calculateProfit 0 (Fin 5) [small_weth] 0 (Fin 1000)) = Fulfilled (Fin (- 120))
   \<and> then_promise netProfit
       (calculateProfit 0 (Fin 5) [small_weth\<lparr>price := Some (Fin 3000)\<rparr>] 0 (Fin 1000))
     = Fulfilled (Fin (- 180))
   \<and> js_lt (Fin (- 180)) (Fin (- 120))"
  by (simp add: claimable_def eval_defs sample_defs)

section \<open>Tokens without a price\<close>

text \<open>
  Claim C7, as amended. For every input of the data model (gas price and token prices
  are not negative), a token whose price is \<open>0\<close> or absent is in the dust array and not
  in the claimable array, whatever its balance; the value of an entry whose price is
  \<open>0\<close> is \<open>0\<close>, and the value of an entry whose price is absent is \<open>NaN\<close>.
\<close>

theorem C7_zero_or_missing_price_is_dust:
  assumes gp: "\<not> js_lt gasPrice (Fin 0)"
    and tp: "\<forall>t \<in> set jarTokens. \<not> js_lt (to_number (price t)) (Fin 0)"
  shows "\<exists>r. calculateProfit uniAmt uniPrice jarTokens threshold gasPrice = Fulfilled r
     \<and> (\<forall>t \<in> set jarTokens. price t = Some (Fin 0) \<or> price t = None \<longrightarrow>
           t \<in> token_of ` set (dustTokens r) \<and> t \<notin> token_of ` set (tokenBreakdown r))
     \<and> (\<forall>e \<in> set (tokenBreakdown r @ dustTokens r).
           (price e = Some (Fin 0) \<longrightarrow> valueUSD e = Fin 0)
         \<and> (price e = None \<longrightarrow> valueUSD e = NaN))"
proof -
  let ?c = "transferCostUSD_of gasPrice jarTokens"
  obtain r where r: "calculateProfit uniAmt uniPrice jarTokens threshold gasPrice = Fulfilled r"
    and tb: "tokenBreakdown r = map (optimal_entry ?c) (filter (claimable ?c) jarTokens)"
    and du: "dustTokens r = map (dust_entry ?c) (filter (\<lambda>t. \<not> claimable ?c t) jarTokens)"
    using calculateProfit_fields [of uniAmt uniPrice jarTokens threshold gasPrice] by blast
  have e: "\<not> js_lt (ethPrice_of jarTokens) (Fin 0)"
    using tp by (rule ethPrice_of_not_negative)
  have c: "\<not> js_lt ?c (Fin 0)"
    unfolding transferCostUSD_of_def Let_def
    using gp e by (rule transfer_cost_not_negative) simp
  have s1: "token_of ` set (tokenBreakdown r) = set (filter (claimable ?c) jarTokens)"
    unfolding tb by (simp add: image_image token_of_optimal_entry)
  have s2: "token_of ` set (dustTokens r) = set (filter (\<lambda>t. \<not> claimable ?c t) jarTokens)"
    unfolding du by (simp add: image_image token_of_dust_entry)
  have zero: "valueUSD_of t = Fin 0" if "price t = Some (Fin 0)" for t
    using that by (simp add: valueUSD_of_def balanceEth_of_def parseFloat_def)
  have none: "valueUSD_of t = NaN" if "price t = None" for t
    using that by (simp add: valueUSD_of_def balanceEth_of_def parseFloat_def)
  have nc: "\<not> claimable ?c t" if "price t = Some (Fin 0) \<or> price t = None" for t
  proof -
    from that have "valueUSD_of t = Fin 0 \<or> valueUSD_of t = NaN"
      using zero none by blast
    then show ?thesis
      using c by (cases ?c) (auto simp: claimable_def)
  qed
  have a: "\<forall>t \<in> set jarTokens. price t = Some (Fin 0) \<or> price t = None \<longrightarrow>
           t \<in> token_of ` set (dustTokens r) \<and> t \<notin> token_of ` set (tokenBreakdown r)"
    unfolding s1 s2 using nc by simp
  have b: "\<forall>e \<in> set (tokenBreakdown r @ dustTokens r).
           (price e = Some (Fin 0) \<longrightarrow> valueUSD e = Fin 0)
         \<and> (price e = None \<longrightarrow> valueUSD e = NaN)"
  proof
    fix x assume "x \<in> set (tokenBreakdown r @ dustTokens r)"
    then obtain t where "x = optimal_entry ?c t \<or> x = dust_entry ?c t"
      by (auto simp: tb du)
    then show "(price x = Some (Fin 0) \<longrightarrow> valueUSD x = Fin 0)
         \<and> (price x = None \<longrightarrow> valueUSD x = NaN)"
      using zero [of t] none [of t] by (auto simp: optimal_entry_def dust_entry_def)
  qed
  from r a b show ?thesis by blast
qed

text \<open>
  USDC, a token without a price and USDC at price \<open>0\<close>: the first is claimable, the
  other two are dust with the values \<open>NaN\<close> and \<open>0\<close>.
\<close>

theorem C7_witness:
  "\<exists>r. calculateProfit (4000 * 10 ^ 18) (Fin 5)
          [usdc, unpriced, usdc\<lparr>price := Some (Fin 0)\<rparr>] (4000 * 10 ^ 18) (Fin 20) = Fulfilled r
     \<and> map token_of (tokenBreakdown r) = [usdc]
     \<and> map token_of (dustTokens r) = [unpriced, usdc\<lparr>price := Some (Fin 0)\<rparr>]
     \<and> map valueUSD (dustTokens r) = [NaN, Fin 0]"
proof -
  have h1: "\<not> js_lt (Fin 20) (Fin 0)" by simp
  have h2: "\<forall>t \<in> set [usdc, unpriced, usdc\<lparr>price := Some (Fin 0)\<rparr>].
              \<not> js_lt (to_number (price t)) (Fin 0)"
    by (simp add: sample_defs)
  show ?thesis
    using C7_zero_or_missing_price_is_dust
      [OF h1 h2, of "4000 * 10 ^ 18" "Fin 5" "4000 * 10 ^ 18"]
    by (auto simp: eval_defs sample_defs)
qed

text \<open>
  Claim C7 as stated gives the value \<open>0\<close> to a token whose price is absent. The code
  multiplies the balance by \<^verbatim>\<open>undefined\<close>: the value recorded on the dust entry is
  \<open>NaN\<close>.
\<close>

theorem C7_missing_price_value_is_NaN:
  "then_promise (map token_of \<circ> dustTokens)
       (calculateProfit (4000 * 10 ^ 18) (Fin 5) [unpriced] (4000 * 10 ^ 18) (Fin 20))
     = Fulfilled [unpriced]
   \<and> price unpriced = None
   \<and> then_promise (map valueUSD \<circ> dustTokens)
       (calculateProfit (4000 * 10 ^ 18) (Fin 5) [unpriced] (4000 * 10 ^ 18) (Fin 20))
     = Fulfilled [NaN]
   \<and> then_promise (map valueUSD \<circ> dustTokens)
       (calculateProfit (4000 * 10 ^ 18) (Fin 5) [unpriced] (4000 * 10 ^ 18) (Fin 20))
     \<noteq> Fulfilled [Fin 0]"
  by (simp add: eval_defs sample_defs)

section \<open>The formatter\<close>

text \<open>
  The digits \<^verbatim>\<open>toFixed\<close> prints for a number below \<open>10^21\<close> in magnitude form a string of
  \<open>f\<close> decimals whose value is the number rounded to \<open>f\<close> decimals.
\<close>

lemma nat_digits_lt10: "d \<in> set (nat_digits n) \<Longrightarrow> d < 10"
  by (induction n arbitrary: d rule: nat_digits.induct)
     (subst (asm) nat_digits.simps, auto split: if_splits)

lemma nat_digits_nonempty: "nat_digits n \<noteq> []"
  by (subst nat_digits.simps) simp

lemma digit_char_cases: "d < 10 \<Longrightarrow> d = 0 \<or> d = 1 \<or> d = 2 \<or> d = 3 \<or> d = 4 \<or> d = 5 \<or> d = 6 \<or> d = 7 \<or> d = 8 \<or> d = (9::nat)"
  by arith

lemma is_digit_digit_char: "d < 10 \<Longrightarrow> is_digit (digit_char d)"
  using digit_char_cases [of d] by (auto simp: is_digit_def digit_char_def)

lemma digit_of_digit_char: "d < 10 \<Longrightarrow> digit_of (digit_char d) = d"
  using digit_char_cases [of d] by (auto simp: digit_of_def digit_char_def)


lemma digits_value_snoc: "digits_value (xs @ [c]) = 10 * digits_value xs + digit_of c"
  by (simp add: digits_value_def)

lemma decimal_string_step:
  "\<not> n < 10 \<Longrightarrow> decimal_string n = decimal_string (n div 10) @ [digit_char (n mod 10)]"
  unfolding decimal_string_def by (subst nat_digits.simps) simp

lemma decimal_string_small: "n < 10 \<Longrightarrow> decimal_string n = [digit_char n]"
  unfolding decimal_string_def by (subst nat_digits.simps) simp

lemma digits_value_decimal_string: "digits_value (decimal_string n) = n"
proof (induction n rule: nat_digits.induct)
  case (1 n)
  show ?case
  proof (cases "n < 10")
    case True
    then show ?thesis
      by (simp add: decimal_string_small digits_value_def digit_of_digit_char)
  next
    case False
    have "digits_value (decimal_string n)
            = 10 * digits_value (decimal_string (n div 10)) + digit_of (digit_char (n mod 10))"
      by (simp add: decimal_string_step [OF False] digits_value_snoc)
    also have "\<dots> = 10 * (n div 10) + n mod 10"
      using "1.IH" [OF False] by (simp add: digit_of_digit_char)
    finally show ?thesis by simp
  qed
qed

lemma decimal_string_digits: "list_all is_digit (decimal_string n)"
  unfolding decimal_string_def list_all_iff
  using nat_digits_lt10 is_digit_digit_char by auto

lemma digits_value_zeros: "digits_value (replicate j CHR ''0'' @ m) = digits_value m"
proof -
  have z: "foldl (\<lambda>a c. 10 * a + digit_of c) 0 (replicate j CHR ''0'') = 0"
    by (induction j) (simp_all add: digit_of_def)
  show ?thesis by (simp add: digits_value_def z)
qed

lemma fixed_digits_shape:
  assumes "0 < f"
  shows "\<exists>ip fr. fixed_digits f n = ip @ CHR ''.'' # fr \<and> ip \<noteq> []
           \<and> list_all is_digit ip \<and> list_all is_digit fr \<and> length fr = f
           \<and> digits_value (ip @ fr) = n"
proof -
  let ?m = "decimal_string n"
  define m' where "m' = (if length ?m \<le> f then replicate (f + 1 - length ?m) CHR ''0'' @ ?m else ?m)"
  have z: "is_digit CHR ''0''" by (simp add: is_digit_def)
  have d: "list_all is_digit m'"
    using decimal_string_digits [of n] z by (simp add: m'_def list_all_iff)
  have v: "digits_value m' = n"
    by (simp add: m'_def digits_value_zeros digits_value_decimal_string)
  have l: "f < length m'"
    by (simp add: m'_def)
  let ?ip = "take (length m' - f) m'" and ?fr = "drop (length m' - f) m'"
  have e: "fixed_digits f n = ?ip @ CHR ''.'' # ?fr"
    using assms by (simp add: fixed_digits_def Let_def m'_def)
  have 1: "?ip \<noteq> []" using l by auto
  have 2: "list_all is_digit ?ip" "list_all is_digit ?fr"
    using d by (auto simp: list_all_iff dest: in_set_takeD in_set_dropD)
  have 3: "length ?fr = f" using l by simp
  have 4: "digits_value (?ip @ ?fr) = n" using v by simp
  from e 1 2 3 4 show ?thesis by blast
qed

lemma not_digit_point: "\<not> is_digit CHR ''.''" and not_digit_minus: "\<not> is_digit CHR ''-''"
  by (simp_all add: is_digit_def)

lemma fixed_point_body:
  assumes ip: "ip \<noteq> []" and dip: "list_all is_digit ip" and dfr: "list_all is_digit fr"
  shows "fixed_point_string (length fr) (ip @ CHR ''.'' # fr)"
    and "fixed_point_value (ip @ CHR ''.'' # fr) = of_nat (digits_value (ip @ fr)) / 10 ^ length fr"
    and "fixed_point_string (length fr) (CHR ''-'' # ip @ CHR ''.'' # fr)"
    and "fixed_point_value (CHR ''-'' # ip @ CHR ''.'' # fr)
           = - (of_nat (digits_value (ip @ fr)) / 10 ^ length fr)"
proof -
  let ?b = "ip @ CHR ''.'' # fr"
  from ip obtain c cs where c: "ip = c # cs" by (cases ip) auto
  with dip have "is_digit c" by simp
  then have cm: "c \<noteq> CHR ''-''" using not_digit_minus by auto
  have u1: "unsigned_part ?b = ?b" by (simp add: unsigned_part_def c cm)
  have u2: "unsigned_part (CHR ''-'' # ?b) = ?b" by (simp add: unsigned_part_def)
  have tw: "takeWhile is_digit ?b = ip"
    using dip not_digit_point by (simp add: list_all_iff)
  have dw: "dropWhile is_digit ?b = CHR ''.'' # fr"
    using dip not_digit_point by (simp add: list_all_iff)
  have fl: "filter is_digit ?b = ip @ fr"
    using dip dfr not_digit_point by (simp add: list_all_iff filter_id_conv)
  show "fixed_point_string (length fr) ?b"
    using ip dfr by (simp only: fixed_point_string_def Let_def u1 tw dw) simp
  show "fixed_point_string (length fr) (CHR ''-'' # ?b)"
    using ip dfr by (simp only: fixed_point_string_def Let_def u2 tw dw) simp
  show "fixed_point_value ?b = of_nat (digits_value (ip @ fr)) / 10 ^ length fr"
    by (simp only: fixed_point_value_def Let_def u1 dw fl) simp
  have ne: "?b \<noteq> CHR ''-'' # ?b" by simp
  show "fixed_point_value (CHR ''-'' # ?b) = - (of_nat (digits_value (ip @ fr)) / 10 ^ length fr)"
    using ne by (simp only: fixed_point_value_def Let_def u2 dw fl) simp
qed

lemma round_half_up_close:
  assumes "0 \<le> a"
  shows "\<bar>of_nat (round_half_up a) - a\<bar> \<le> 1 / 2"
proof -
  have nn: "0 \<le> \<lfloor>a + 1 / 2\<rfloor>" using assms by simp
  have eq: "of_nat (round_half_up a) = (of_int \<lfloor>a + 1 / 2\<rfloor> :: rat)"
    unfolding round_half_up_def using nn by simp
  have l1: "of_int \<lfloor>a + 1 / 2\<rfloor> \<le> a + 1 / 2" by (rule of_int_floor_le)
  have l2: "a + 1 / 2 < of_int \<lfloor>a + 1 / 2\<rfloor> + 1"
    using floor_correct [of "a + 1 / 2"] by simp
  from l1 l2 have "\<bar>of_int \<lfloor>a + 1 / 2\<rfloor> - a\<bar> \<le> 1 / 2" by linarith
  then show ?thesis by (simp only: eq)
qed

lemma scaled_close:
  assumes "\<bar>(k::rat) - a * 10 ^ f\<bar> \<le> 1 / 2"
  shows "\<bar>k / 10 ^ f - a\<bar> \<le> 1 / (2 * 10 ^ f)"
proof -
  have p: "(0::rat) < 10 ^ f" by simp
  have "k / 10 ^ f - a = (k - a * 10 ^ f) / 10 ^ f"
    using p by (simp add: diff_divide_distrib)
  then have "\<bar>k / 10 ^ f - a\<bar> = \<bar>k - a * 10 ^ f\<bar> / 10 ^ f"
    using p by simp
  also have "\<dots> \<le> (1 / 2) / 10 ^ f"
    by (rule divide_right_mono) (use assms p in simp_all)
  also have "\<dots> = 1 / (2 * 10 ^ f)" by simp
  finally show ?thesis .
qed

lemma toFixed_small:
  "\<bar>r\<bar> < 10 ^ 21 \<Longrightarrow>
     toFixed f (Fin r)
       = (if r < 0 then ''-'' else []) @ fixed_digits f (round_half_up (\<bar>r\<bar> * 10 ^ f))"
  by (simp add: toFixed_def Let_def)

lemma toFixed_shows_amount:
  assumes "plain x" and "0 < f"
  shows "shows_amount f x (toFixed f x)"
proof -
  from assms(1) obtain r where x: "x = Fin r" and small: "\<bar>r\<bar> < 10 ^ 21"
    by (cases x) auto
  let ?n = "round_half_up (\<bar>r\<bar> * 10 ^ f)"
  obtain ip fr where e: "fixed_digits f ?n = ip @ CHR ''.'' # fr" and ip: "ip \<noteq> []"
    and dip: "list_all is_digit ip" and dfr: "list_all is_digit fr" and lf: "length fr = f"
    and dv: "digits_value (ip @ fr) = ?n"
    using fixed_digits_shape [OF assms(2)] by blast
  have close: "\<bar>of_nat ?n / 10 ^ f - \<bar>r\<bar>\<bar> \<le> 1 / (2 * 10 ^ f)"
    by (rule scaled_close, rule round_half_up_close) simp
  note fb = fixed_point_body [OF ip dip dfr, unfolded lf dv]
  show ?thesis
  proof (cases "r < 0")
    case True
    have t: "toFixed f (Fin r) = CHR ''-'' # ip @ CHR ''.'' # fr"
      unfolding toFixed_small [OF small] e using True by simp
    have "\<bar>- (of_nat ?n / 10 ^ f) - r\<bar> = \<bar>of_nat ?n / 10 ^ f - \<bar>r\<bar>\<bar>"
      using True by (simp add: abs_minus_commute)
    with close have "\<bar>- (of_nat ?n / 10 ^ f) - r\<bar> \<le> 1 / (2 * 10 ^ f)" by (simp only:)
    with fb(3,4) show ?thesis
      unfolding shows_amount_def x t by (simp only: jsnum.case)
  next
    case False
    have t: "toFixed f (Fin r) = ip @ CHR ''.'' # fr"
      unfolding toFixed_small [OF small] e using False by simp
    have "\<bar>of_nat ?n / 10 ^ f - r\<bar> = \<bar>of_nat ?n / 10 ^ f - \<bar>r\<bar>\<bar>"
      using False by simp
    with close have "\<bar>of_nat ?n / 10 ^ f - r\<bar> \<le> 1 / (2 * 10 ^ f)" by (simp only:)
    with fb(1,2) show ?thesis
      unfolding shows_amount_def x t by (simp only: jsnum.case)
  qed
qed

lemmas format_eval = toFixed_def Let_def round_half_up_def fixed_digits_def
  exponential_string_def decimal_string_def nat_digits.simps digit_char_def floor_rat_numeral
  floor_rat_one_numeral
  formatProfitData_def format_row_def

lemmas string_eval = usd_string_def percent_string_def shows_amount_def fixed_point_string_def
  fixed_point_value_def unsigned_part_def is_digit_def digits_value_def digit_of_def

lemma usd_string_toFixed: "plain x \<Longrightarrow> usd_string x (CHR ''$'' # toFixed 2 x)"
  by (simp add: usd_string_def toFixed_shows_amount)

lemma percent_string_toFixed: "plain x \<Longrightarrow> percent_string x (toFixed 2 x @ ''%'')"
  by (simp add: percent_string_def toFixed_shows_amount)

lemma scenario_result_eq:
  "calculateProfit (4000 * 10 ^ 18) (Fin 5) [usdc, dust, weth] (4000 * 10 ^ 18) (Fin 20)
     = Fulfilled scenario_result"
  by (simp add: scenario_result_def eval_defs sample_defs)

text \<open>
  Claim C8, as amended. For every profit result, the formatter maps each USD amount that
  is a finite number below \<open>10^21\<close> in magnitude to the currency symbol followed by a
  string of 2 decimals showing the amount, and such a percentage to a string of 2 decimals
  followed by the percent sign; each claimable entry becomes a row of address, symbol,
  balance and value, the balance (when such a number) a string of 6 decimals without a
  symbol and the value a USD string; \<open>dustCount\<close> is the filtered count and
  \<open>filtered\<close> is true if and only if \<open>dustCount > 0\<close>.
\<close>

theorem C8_formatter_on_plain_numbers:
  "(plain (uniCostUSD r) \<longrightarrow> usd_string (uniCostUSD r) (fmt_uniCostUSD (formatProfitData r)))
   \<and> (plain (totalJarValueUSD r) \<longrightarrow>
        usd_string (totalJarValueUSD r) (fmt_totalJarValueUSD (formatProfitData r)))
   \<and> (plain (gasCostUSD r) \<longrightarrow> usd_string (gasCostUSD r) (fmt_gasCostUSD (formatProfitData r)))
   \<and> (plain (grossProfit r) \<longrightarrow> usd_string (grossProfit r) (fmt_grossProfit (formatProfitData r)))
   \<and> (plain (netProfit r) \<longrightarrow> usd_string (netProfit r) (fmt_netProfit (formatProfitData r)))
   \<and> (plain (minimumOutputUSD r) \<longrightarrow>
        usd_string (minimumOutputUSD r) (fmt_minimumOutputUSD (formatProfitData r)))
   \<and> (plain (savedGasUSD r) \<longrightarrow> usd_string (savedGasUSD r) (fmt_savedGas (formatProfitData r)))
   \<and> (plain (profitPercentage r) \<longrightarrow>
        percent_string (profitPercentage r) (fmt_profitPercentage (formatProfitData r)))
   \<and> list_all2
        (\<lambda>t row. row_address row = address t \<and> row_symbol row = symbol t
           \<and> (plain (balanceEth t) \<longrightarrow> shows_amount 6 (balanceEth t) (row_balance row))
           \<and> (plain (valueUSD t) \<longrightarrow> usd_string (valueUSD t) (row_valueUSD row)))
        (tokenBreakdown r) (fmt_tokenBreakdown (formatProfitData r))
   \<and> fmt_dustCount (formatProfitData r) = filteredCount r
   \<and> fmt_filtered (formatProfitData r) = (0 < fmt_dustCount (formatProfitData r))"
proof -
  have rows: "list_all2
        (\<lambda>t row. row_address row = address t \<and> row_symbol row = symbol t
           \<and> (plain (balanceEth t) \<longrightarrow> shows_amount 6 (balanceEth t) (row_balance row))
           \<and> (plain (valueUSD t) \<longrightarrow> usd_string (valueUSD t) (row_valueUSD row)))
        (tokenBreakdown r) (fmt_tokenBreakdown (formatProfitData r))"
    by (simp add: formatProfitData_def list_all2_map2 list_all2_same format_row_def
        usd_string_toFixed toFixed_shows_amount)
  have flags: "fmt_dustCount (formatProfitData r) = filteredCount r"
    "fmt_filtered (formatProfitData r) = (0 < fmt_dustCount (formatProfitData r))"
    by (simp_all add: formatProfitData_def)
  have usd: "plain (uniCostUSD r) \<longrightarrow> usd_string (uniCostUSD r) (fmt_uniCostUSD (formatProfitData r))"
    "plain (totalJarValueUSD r) \<longrightarrow>
        usd_string (totalJarValueUSD r) (fmt_totalJarValueUSD (formatProfitData r))"
    "plain (gasCostUSD r) \<longrightarrow> usd_string (gasCostUSD r) (fmt_gasCostUSD (formatProfitData r))"
    "plain (grossProfit r) \<longrightarrow> usd_string (grossProfit r) (fmt_grossProfit (formatProfitData r))"
    "plain (netProfit r) \<longrightarrow> usd_string (netProfit r) (fmt_netProfit (formatProfitData r))"
    "plain (minimumOutputUSD r) \<longrightarrow>
        usd_string (minimumOutputUSD r) (fmt_minimumOutputUSD (formatProfitData r))"
    "plain (savedGasUSD r) \<longrightarrow> usd_string (savedGasUSD r) (fmt_savedGas (formatProfitData r))"
    by (simp_all add: formatProfitData_def usd_string_toFixed)
  have pct: "plain (profitPercentage r) \<longrightarrow>
        percent_string (profitPercentage r) (fmt_profitPercentage (formatProfitData r))"
    by (simp add: formatProfitData_def percent_string_toFixed)
  from usd pct rows flags show ?thesis by blast
qed

text \<open>
  The specification's scenario: a gas cost of 13.2 USD is shown as \<open>$13.20\<close>, the net
  profit as \<open>$-13513.20\<close>, the percentage as \<open>-67.57%\<close>, the balances as
  \<open>500.000000\<close> and \<open>2.000000\<close>.
\<close>

theorem C8_witness:
  "fmt_uniCostUSD (formatProfitData scenario_result) = ''$20000.00''
   \<and> fmt_gasCostUSD (formatProfitData scenario_result) = ''$13.20''
   \<and> usd_string (Fin (66 / 5)) ''$13.20''
   \<and> fmt_netProfit (formatProfitData scenario_result) = ''$-13513.20''
   \<and> usd_string (Fin (- 67566 / 5)) ''$-13513.20''
   \<and> fmt_profitPercentage (formatProfitData scenario_result) = ''-67.57%''
   \<and> percent_string (Fin (- 33783 / 500)) ''-67.57%''
   \<and> map row_balance (fmt_tokenBreakdown (formatProfitData scenario_result))
        = [''500.000000'', ''2.000000'']
   \<and> map row_valueUSD (fmt_tokenBreakdown (formatProfitData scenario_result))
        = [''$500.00'', ''$6000.00'']
   \<and> fmt_dustCount (formatProfitData scenario_result) = 1
   \<and> fmt_filtered (formatProfitData scenario_result)"
proof -
  have t: "toFixed 2 (Fin 20000) = ''20000.00''" "toFixed 2 (Fin (66 / 5)) = ''13.20''"
    "toFixed 2 (Fin (- (67566 / 5))) = ''-13513.20''" "toFixed 2 (Fin (- (33783 / 500))) = ''-67.57''"
    "toFixed 6 (Fin 500) = ''500.000000''" "toFixed 6 (Fin 2) = ''2.000000''"
    "toFixed 2 (Fin 500) = ''500.00''" "toFixed 2 (Fin 6000) = ''6000.00''"
    by (simp_all add: format_eval)
  have p: "plain (gasCostUSD scenario_result)" "plain (netProfit scenario_result)"
    "plain (profitPercentage scenario_result)"
    by (simp_all add: scenario_result_def)
  have f: "fmt_gasCostUSD (formatProfitData scenario_result) = ''$13.20''"
    "fmt_netProfit (formatProfitData scenario_result) = ''$-13513.20''"
    "fmt_profitPercentage (formatProfitData scenario_result) = ''-67.57%''"
    "fmt_uniCostUSD (formatProfitData scenario_result) = ''$20000.00''"
    by (simp_all add: formatProfitData_def scenario_result_def t)
  have rows: "map row_balance (fmt_tokenBreakdown (formatProfitData scenario_result))
        = [''500.000000'', ''2.000000'']"
    "map row_valueUSD (fmt_tokenBreakdown (formatProfitData scenario_result))
        = [''$500.00'', ''$6000.00'']"
    by (simp_all add: formatProfitData_def format_row_def scenario_result_def optimal_entry_def
        valueUSD_of_def balanceEth_of_def parseFloat_def formatUnits_def decimals_or_18_def
        sample_defs t)
  have g: "gasCostUSD scenario_result = Fin (66 / 5)"
    "netProfit scenario_result = Fin (- 67566 / 5)"
    "profitPercentage scenario_result = Fin (- 33783 / 500)"
    by (simp_all add: scenario_result_def)
  have flags: "fmt_dustCount (formatProfitData scenario_result) = 1"
    "fmt_filtered (formatProfitData scenario_result)"
    by (simp_all add: formatProfitData_def scenario_result_def)
  show ?thesis
    using C8_formatter_on_plain_numbers [of scenario_result] p rows flags
    unfolding f g by simp
qed

text \<open>
  Claim C8 as stated covers every profit result. A jar holding \<open>10^21\<close> whole tokens at
  1 USD has the claimable value \<open>10^21\<close>, which \<^verbatim>\<open>toFixed(2)\<close> prints as \<open>1e+21\<close>:
  the total is shown as \<open>$1e+21\<close> and the row's balance as \<open>1e+21\<close>, neither a string
  of 2 or 6 decimals.
\<close>

theorem C8_large_amount_in_exponent_notation:
  "then_promise totalJarValueUSD
       (calculateProfit (4000 * 10 ^ 18) (Fin 5) [whale] (4000 * 10 ^ 18) (Fin 20))
     = Fulfilled (Fin (10 ^ 21))
   \<and> then_promise (fmt_totalJarValueUSD \<circ> formatProfitData)
       (calculateProfit (4000 * 10 ^ 18) (Fin 5) [whale] (4000 * 10 ^ 18) (Fin 20))
     = Fulfilled ''$1e+21''
   \<and> \<not> usd_string (Fin (10 ^ 21)) ''$1e+21''
   \<and> then_promise (map row_balance \<circ> fmt_tokenBreakdown \<circ> formatProfitData)
       (calculateProfit (4000 * 10 ^ 18) (Fin 5) [whale] (4000 * 10 ^ 18) (Fin 20))
     = Fulfilled [''1e+21'']
   \<and> \<not> shows_amount 6 (Fin (10 ^ 21)) ''1e+21''"
proof -
  have t: "toFixed 2 (Fin 1000000000000000000000) = ''1e+21''"
    "toFixed 6 (Fin 1000000000000000000000) = ''1e+21''"
    by (simp_all add: format_eval)
  have n: "\<not> usd_string (Fin (10 ^ 21)) ''$1e+21''" "\<not> shows_amount 6 (Fin (10 ^ 21)) ''1e+21''"
    by (simp_all add: string_eval)
  have c: "then_promise totalJarValueUSD
       (calculateProfit (4000 * 10 ^ 18) (Fin 5) [whale] (4000 * 10 ^ 18) (Fin 20))
     = Fulfilled (Fin (10 ^ 21))"
    "then_promise (fmt_totalJarValueUSD \<circ> formatProfitData)
       (calculateProfit (4000 * 10 ^ 18) (Fin 5) [whale] (4000 * 10 ^ 18) (Fin 20))
     = Fulfilled ''$1e+21''"
    "then_promise (map row_balance \<circ> fmt_tokenBreakdown \<circ> formatProfitData)
       (calculateProfit (4000 * 10 ^ 18) (Fin 5) [whale] (4000 * 10 ^ 18) (Fin 20))
     = Fulfilled [''1e+21'']"
    by (simp_all add: eval_defs whale_def formatProfitData_def format_row_def t)
  from c n show ?thesis by blast
qed

end
